theory Spec2Isabelle
  imports Complex_Main
begin

section \<open>Data model of the whiteboard\<close>

text \<open>
  The whiteboard component keeps its whole state in React state variables. The model is a
  record of those variables and one function per handler, taking the state of the render in
  which the handler was created and returning the state after its updates are applied.
  JavaScript numbers are modelled as real numbers (no rounding, no NaN, no infinities), so
  the model follows the code wherever no division by zero occurs: for a nonzero scale and,
  with snap enabled, a nonzero grid spacing. The state variables that only the toolbar, the
  panels and the renderer use (\<open>showSurfaceSettings\<close>, \<open>showColorPicker\<close>,
  \<open>gridVisible\<close>, \<open>gridDotSize\<close>, \<open>pattern\<close>, \<open>bgColor\<close>) are left out.
\<close>

datatype Tool =
  Move | Pencil | Eraser | Rect | RoundRect | Circle | Line | Arrow | DashedLine | Text | Hand

datatype ResizeHandle = NW | NN | NE | EE | SE | SS | SW | WW

record Point =
  px :: real
  py :: real

text \<open>
  A shape is parametric in the representation of its points: \<open>Point shape\<close> holds the
  coordinates themselves, \<open>nat shape\<close> holds addresses of point objects in a store.
  The optional fields of the interface are options; \<open>None\<close> is \<open>undefined\<close>.
\<close>

text \<open>
  The identifiers are strings of digits and lower-case letters. A text typed by the user is
  any JavaScript string: a sequence of UTF-16 code units, given here by their numbers.
\<close>

type_synonym code_units = "nat list"

record 'p shape =
  shape_id :: string
  shape_tool :: Tool
  points :: "'p list"
  shape_color :: string
  shape_size :: real
  shape_isFilled :: bool
  isLocked :: "bool option"
  rotation :: "real option"
  shape_text :: "code_units option"

record text_input =
  visible :: bool
  tx :: real
  ty :: real
  tvalue :: code_units

record wb =
  shapes :: "Point shape list"
  tool :: Tool
  previousTool :: Tool
  color :: string
  brushSize :: real
  isFilled :: bool
  snapToGrid :: bool
  scale :: real
  offset :: Point
  isPanning :: bool
  isSpacePressed :: bool
  isDrawing :: bool
  isDragging :: bool
  isResizing :: bool
  isRotating :: bool
  activeResizeHandle :: "ResizeHandle option"
  selectedShapeId :: "string option"
  hoveredShapeId :: "string option"
  startPos :: Point
  currentPos :: Point
  isShiftPressed :: bool
  isSidebarOpen :: bool
  clipboard :: "Point shape option"
  gridSpacing :: real
  undoStack :: "Point shape list list"
  redoStack :: "Point shape list list"
  textInput :: text_input

definition MAX_HISTORY :: nat where
  "MAX_HISTORY = 50"

definition MIN_SCALE :: real where
  "MIN_SCALE = 0.05"

definition MAX_SCALE :: real where
  "MAX_SCALE = 20"

text \<open>The initial values of the \<open>useState\<close> calls.\<close>

definition initial :: wb where
  "initial = \<lparr> shapes = [], tool = Pencil, previousTool = Pencil, color = ''#6366f1'',
     brushSize = 5, isFilled = False, snapToGrid = False, scale = 1,
     offset = \<lparr>px = 0, py = 0\<rparr>, isPanning = False, isSpacePressed = False,
     isDrawing = False, isDragging = False, isResizing = False, isRotating = False,
     activeResizeHandle = None, selectedShapeId = None, hoveredShapeId = None,
     startPos = \<lparr>px = 0, py = 0\<rparr>, currentPos = \<lparr>px = 0, py = 0\<rparr>,
     isShiftPressed = False, isSidebarOpen = False, clipboard = None, gridSpacing = 40,
     undoStack = [], redoStack = [],
     textInput = \<lparr>visible = False, tx = 0, ty = 0, tvalue = []\<rparr> \<rparr>"

subsection \<open>JavaScript truthiness of the optional values\<close>

text \<open>\<open>if (selectedShapeId)\<close>: \<open>null\<close> and the empty string are falsy.\<close>

fun truthy_id :: "string option \<Rightarrow> bool" where
  "truthy_id None = False"
| "truthy_id (Some i) = (i \<noteq> [])"

text \<open>\<open>shape.isLocked\<close> in a condition: \<open>undefined\<close> and \<open>false\<close> are falsy.\<close>

fun truthy_flag :: "bool option \<Rightarrow> bool" where
  "truthy_flag None = False"
| "truthy_flag (Some b) = b"

text \<open>\<open>if (shape.rotation)\<close>: \<open>undefined\<close> and \<open>0\<close> are falsy.\<close>

fun truthy_num :: "real option \<Rightarrow> bool" where
  "truthy_num None = False"
| "truthy_num (Some r) = (r \<noteq> 0)"

text \<open>\<open>shapes.find(s => s.id === selectedShapeId)\<close>; \<open>null\<close> equals no id.\<close>

fun find_by_id :: "string option \<Rightarrow> 'p shape list \<Rightarrow> 'p shape option" where
  "find_by_id None ss = None"
| "find_by_id (Some i) ss = List.find (\<lambda>s. shape_id s = i) ss"

section \<open>Coordinate mapper\<close>

definition toWorldCoords :: "wb \<Rightarrow> real \<Rightarrow> real \<Rightarrow> Point" where
  "toWorldCoords st screenX screenY =
     \<lparr> px = (screenX - px (offset st)) / scale st,
       py = (screenY - py (offset st)) / scale st \<rparr>"

text \<open>\<open>toScreenCoords\<close> is the function of \<open>src/Whiteboard.tsx\<close>.\<close>

definition toScreenCoords :: "wb \<Rightarrow> real \<Rightarrow> real \<Rightarrow> Point" where
  "toScreenCoords st worldX worldY =
     \<lparr> px = worldX * scale st + px (offset st),
       py = worldY * scale st + py (offset st) \<rparr>"

text \<open>\<open>Math.round\<close> rounds to the nearest integer, a tie towards plus infinity.\<close>

definition js_round :: "real \<Rightarrow> real" where
  "js_round v = real_of_int \<lfloor>v + 1 / 2\<rfloor>"

definition applySnap :: "wb \<Rightarrow> real \<Rightarrow> real" where
  "applySnap st val =
     (if \<not> snapToGrid st then val else js_round (val / gridSpacing st) * gridSpacing st)"

record wheel_event =
  w_ctrlKey :: bool
  w_metaKey :: bool
  w_shiftKey :: bool
  w_deltaX :: real
  w_deltaY :: real
  w_clientX :: real
  w_clientY :: real
  w_rect :: "(real \<times> real) option"

text \<open>
  \<open>w_rect\<close> is \<open>canvasRef.current?.getBoundingClientRect()\<close>: its left and top, or
  \<open>None\<close> when the canvas is not mounted. \<open>Math.pow(1.1, delta / 100)\<close> is the real power.
\<close>

definition zoomFactor :: "wheel_event \<Rightarrow> real" where
  "zoomFactor e = 1.1 powr ((- w_deltaY e) / 100)"

definition handleWheel :: "wb \<Rightarrow> wheel_event \<Rightarrow> wb" where
  "handleWheel st e =
     (if w_ctrlKey e \<or> w_metaKey e then
        (let factor = zoomFactor e;
             newScale = min (max MIN_SCALE (scale st * factor)) MAX_SCALE
         in case w_rect e of
              None \<Rightarrow> st
            | Some (rleft, rtop) \<Rightarrow>
                (let mouseX = w_clientX e - rleft;
                     mouseY = w_clientY e - rtop;
                     worldX = (mouseX - px (offset st)) / scale st;
                     worldY = (mouseY - py (offset st)) / scale st
                 in st\<lparr> scale := newScale,
                        offset := \<lparr> px = mouseX - worldX * newScale,
                                    py = mouseY - worldY * newScale \<rparr> \<rparr>))
      else if w_shiftKey e then
        st\<lparr> offset := (offset st)\<lparr> px := px (offset st) - w_deltaY e \<rparr> \<rparr>
      else
        st\<lparr> offset := \<lparr> px = px (offset st) - w_deltaX e,
                        py = py (offset st) - w_deltaY e \<rparr> \<rparr>)"

section \<open>History manager\<close>

text \<open>\<open>prev.slice(-n)\<close> for a positive \<open>n\<close>: the last \<open>n\<close> elements.\<close>

definition slice_last :: "nat \<Rightarrow> 'a list \<Rightarrow> 'a list" where
  "slice_last n xs = drop (length xs - n) xs"

definition saveHistory :: "wb \<Rightarrow> Point shape list \<Rightarrow> wb" where
  "saveHistory st newShapes =
     st\<lparr> undoStack := slice_last (MAX_HISTORY - 1) (undoStack st) @ [shapes st],
         redoStack := [],
         shapes := newShapes \<rparr>"

definition undo :: "wb \<Rightarrow> wb" where
  "undo st =
     (if undoStack st = [] then st
      else st\<lparr> redoStack := redoStack st @ [shapes st],
               undoStack := butlast (undoStack st),
               shapes := last (undoStack st),
               selectedShapeId := None \<rparr>)"

definition redo :: "wb \<Rightarrow> wb" where
  "redo st =
     (if redoStack st = [] then st
      else st\<lparr> undoStack := undoStack st @ [shapes st],
               redoStack := butlast (redoStack st),
               shapes := last (redoStack st) \<rparr>)"

section \<open>Clipboard, lock and nudge\<close>

definition translate :: "real \<Rightarrow> real \<Rightarrow> Point \<Rightarrow> Point" where
  "translate dx dy p = \<lparr> px = px p + dx, py = py p + dy \<rparr>"

text \<open>
  \<open>JSON.parse(JSON.stringify(shape))\<close> builds a new object with the same field values, so
  the copy is the same value. The identifier \<open>Math.random().toString(36).substr(2, 9)\<close>
  is an argument \<open>rid\<close> of every handler that creates a shape.
\<close>

definition handleCopy :: "wb \<Rightarrow> wb" where
  "handleCopy st =
     (if truthy_id (selectedShapeId st) then
        (case find_by_id (selectedShapeId st) (shapes st) of
           Some s \<Rightarrow> st\<lparr> clipboard := Some s \<rparr>
         | None \<Rightarrow> st)
      else st) \<lparr> isSidebarOpen := False \<rparr>"

definition clone_of :: "string \<Rightarrow> Point shape \<Rightarrow> Point shape" where
  "clone_of rid s =
     s\<lparr> shape_id := rid, points := map (translate 20 20) (points s), isLocked := Some False \<rparr>"

definition handlePaste :: "wb \<Rightarrow> string \<Rightarrow> wb" where
  "handlePaste st rid =
     (case clipboard st of
        Some c \<Rightarrow>
          (saveHistory st (shapes st @ [clone_of rid c])) \<lparr> selectedShapeId := Some rid \<rparr>
      | None \<Rightarrow> st) \<lparr> isSidebarOpen := False \<rparr>"

definition handleDuplicate :: "wb \<Rightarrow> string \<Rightarrow> wb" where
  "handleDuplicate st rid =
     (if truthy_id (selectedShapeId st) then
        (case find_by_id (selectedShapeId st) (shapes st) of
           Some s \<Rightarrow>
             (saveHistory st (shapes st @ [clone_of rid s])) \<lparr> selectedShapeId := Some rid \<rparr>
         | None \<Rightarrow> st)
      else st) \<lparr> isSidebarOpen := False \<rparr>"

definition toggleLock :: "wb \<Rightarrow> wb" where
  "toggleLock st =
     (if \<not> truthy_id (selectedShapeId st) then st
      else st\<lparr> shapes :=
             map (\<lambda>s. if Some (shape_id s) = selectedShapeId st
                       then s\<lparr> isLocked := Some (\<not> truthy_flag (isLocked s)) \<rparr> else s)
                 (shapes st) \<rparr>)"

definition move_selected :: "string option \<Rightarrow> real \<Rightarrow> real \<Rightarrow> Point shape list \<Rightarrow> Point shape list" where
  "move_selected sel dx dy ss =
     map (\<lambda>s. if Some (shape_id s) = sel
               then s\<lparr> points := map (translate dx dy) (points s) \<rparr> else s) ss"

definition nudgeSelected :: "wb \<Rightarrow> real \<Rightarrow> real \<Rightarrow> wb" where
  "nudgeSelected st dx dy =
     (if \<not> truthy_id (selectedShapeId st) then st
      else case find_by_id (selectedShapeId st) (shapes st) of
             Some s \<Rightarrow>
               if truthy_flag (isLocked s) then st
               else st\<lparr> shapes := move_selected (selectedShapeId st) dx dy (shapes st) \<rparr>
           | None \<Rightarrow> st\<lparr> shapes := move_selected (selectedShapeId st) dx dy (shapes st) \<rparr>)"

section \<open>Hit tester\<close>

datatype error = TypeError

text \<open>
  \<open>p1 = pts[0]; p2 = pts[1] || p1\<close>. On an empty point list \<open>p1\<close> is \<open>undefined\<close> and the
  first read of \<open>p1.x\<close> throws a TypeError.
\<close>

fun first_two :: "'a list \<Rightarrow> error + ('a \<times> 'a)" where
  "first_two [] = Inl TypeError"
| "first_two [p] = Inr (p, p)"
| "first_two (p # q # ps) = Inr (p, q)"

text \<open>The rotation of a shape when \<open>if (shape.rotation)\<close> holds.\<close>

definition rot_angle :: "'p shape \<Rightarrow> real option" where
  "rot_angle s = (if truthy_num (rotation s) then rotation s else None)"

definition rotate_by :: "real \<Rightarrow> real \<Rightarrow> real \<Rightarrow> Point \<Rightarrow> Point" where
  "rotate_by ang cx cy p =
     (let dx = px p - cx; dy = py p - cy; c = cos ang; s = sin ang
      in \<lparr> px = cx + (dx * c - dy * s), py = cy + (dx * s + dy * c) \<rparr>)"

definition near :: "Point \<Rightarrow> Point \<Rightarrow> real \<Rightarrow> bool" where
  "near p q r = (sqrt ((px p - px q)\<^sup>2 + (py p - py q)\<^sup>2) < r)"

definition checkHit :: "real \<Rightarrow> Point \<Rightarrow> Point shape \<Rightarrow> error + bool" where
  "checkHit sc pos s =
     (case first_two (points s) of
        Inl err \<Rightarrow> Inl err
      | Inr (p1, p2) \<Rightarrow> Inr
         (let hitboxSize = 10 / sc;
              cx = (px p1 + px p2) / 2;
              cy = (py p1 + py p2) / 2;
              target = (case rot_angle s of
                          None \<Rightarrow> pos
                        | Some r \<Rightarrow> rotate_by (- r) cx cy pos);
              targetX = px target;
              targetY = py target
          in if shape_tool s = Pencil \<or> shape_tool s = Eraser then
               list_ex (\<lambda>p. near p target hitboxSize) (points s)
             else if shape_tool s = Circle then
               (let radius = sqrt ((px p2 - px p1)\<^sup>2 + (py p2 - py p1)\<^sup>2);
                    dist = sqrt ((targetX - px p1)\<^sup>2 + (targetY - py p1)\<^sup>2)
                in dist \<le> radius + hitboxSize)
             else
               (let minX = min (px p1) (px p2) - hitboxSize;
                    maxX = max (px p1) (px p2) + hitboxSize;
                    minY = min (py p1) (py p2) - hitboxSize;
                    maxY = max (py p1) (py p2) + hitboxSize
                in if shape_tool s = Text then
                     (let fontSize = max 16 (shape_size s * 5)
                      in targetX \<ge> minX \<and> targetX \<le> minX + 200
                         \<and> targetY \<ge> minY - fontSize \<and> targetY \<le> minY)
                   else targetX \<ge> minX \<and> targetX \<le> maxX
                        \<and> targetY \<ge> minY \<and> targetY \<le> maxY)))"

definition checkRotationHandleHit :: "real \<Rightarrow> Point \<Rightarrow> Point shape \<Rightarrow> bool" where
  "checkRotationHandleHit sc pos s =
     (case points s of
        p1 # p2 # ps \<Rightarrow>
          (let cx = (px p1 + px p2) / 2;
               cy = (py p1 + py p2) / 2;
               minY = min (py p1) (py p2);
               rotHandleDist = 30 / sc;
               rotHandleSize = 12 / sc;
               base = \<lparr> px = cx, py = minY - rotHandleDist \<rparr>;
               handle = (case rot_angle s of
                           None \<Rightarrow> base
                         | Some r \<Rightarrow> rotate_by r cx cy base)
           in near pos handle rotHandleSize)
      | _ \<Rightarrow> False)"

text \<open>The handles in the insertion order of the object literal, which \<open>Object.entries\<close> keeps.\<close>

definition baseHandles :: "Point \<Rightarrow> Point \<Rightarrow> (ResizeHandle \<times> Point) list" where
  "baseHandles p1 p2 =
     (let minX = min (px p1) (px p2);
          maxX = max (px p1) (px p2);
          minY = min (py p1) (py p2);
          maxY = max (py p1) (py p2);
          midX = (minX + maxX) / 2;
          midY = (minY + maxY) / 2
      in [ (NW, \<lparr>px = minX, py = minY\<rparr>), (NN, \<lparr>px = midX, py = minY\<rparr>),
           (NE, \<lparr>px = maxX, py = minY\<rparr>), (EE, \<lparr>px = maxX, py = midY\<rparr>),
           (SE, \<lparr>px = maxX, py = maxY\<rparr>), (SS, \<lparr>px = midX, py = maxY\<rparr>),
           (SW, \<lparr>px = minX, py = maxY\<rparr>), (WW, \<lparr>px = minX, py = midY\<rparr>) ])"

definition checkResizeHandleHit :: "real \<Rightarrow> Point \<Rightarrow> Point shape \<Rightarrow> ResizeHandle option" where
  "checkResizeHandleHit sc pos s =
     (case points s of
        p1 # p2 # ps \<Rightarrow>
          (let handleSize = 12 / sc;
               cx = (min (px p1) (px p2) + max (px p1) (px p2)) / 2;
               cy = (min (py p1) (py p2) + max (py p1) (py p2)) / 2;
               placed = (\<lambda>p. case rot_angle s of
                                None \<Rightarrow> p
                              | Some r \<Rightarrow> rotate_by r cx cy p)
           in map_option fst
                (List.find (\<lambda>(key, p). near pos (placed p) handleSize) (baseHandles p1 p2)))
      | _ \<Rightarrow> None)"

text \<open>
  \<open>shapes.slice().reverse().find(s => checkHit(pos, s))\<close>: the argument is the reversed
  list; the scan stops at the first hit, and a TypeError of \<open>checkHit\<close> ends it.
\<close>

fun find_hit :: "real \<Rightarrow> Point \<Rightarrow> Point shape list \<Rightarrow> error + Point shape option" where
  "find_hit sc pos [] = Inr None"
| "find_hit sc pos (s # ss) =
     (case checkHit sc pos s of
        Inl err \<Rightarrow> Inl err
      | Inr True \<Rightarrow> Inr (Some s)
      | Inr False \<Rightarrow> find_hit sc pos ss)"

section \<open>Interaction state machine: pointer events\<close>

record mouse_event =
  m_clientX :: real
  m_clientY :: real
  m_button :: int
  m_rect :: "(real \<times> real) option"

definition snapped :: "wb \<Rightarrow> Point \<Rightarrow> Point" where
  "snapped st pos = \<lparr> px = applySnap st (px pos), py = applySnap st (py pos) \<rparr>"

text \<open>An object literal without the optional fields leaves them \<open>undefined\<close>.\<close>

definition new_shape ::
  "string \<Rightarrow> Tool \<Rightarrow> Point list \<Rightarrow> string \<Rightarrow> real \<Rightarrow> bool \<Rightarrow> code_units option \<Rightarrow> Point shape" where
  "new_shape rid t pts col sz fl label =
     \<lparr> shape_id = rid, shape_tool = t, points = pts, shape_color = col, shape_size = sz,
       shape_isFilled = fl, isLocked = None, rotation = None, shape_text = label \<rparr>"

text \<open>
  \<open>String.prototype.trim\<close> removes the white space and the line terminators of ECMAScript
  from both ends: TAB, LF, VT, FF, CR, the space, U+00A0, U+1680, U+2000 to U+200A, U+2028,
  U+2029, U+202F, U+205F, U+3000 and U+FEFF. Each of them is one code unit. So
  \<open>value.trim()\<close> is truthy when some code unit of \<open>value\<close> is none of these.
\<close>

definition js_space :: "nat \<Rightarrow> bool" where
  "js_space c =
     (c \<in> set [0x09, 0x0A, 0x0B, 0x0C, 0x0D, 0x20, 0xA0, 0x1680, 0x2028, 0x2029, 0x202F,
                0x205F, 0x3000, 0xFEFF]
      \<or> (0x2000 \<le> c \<and> c \<le> 0x200A))"

definition trim_nonempty :: "code_units \<Rightarrow> bool" where
  "trim_nonempty v = list_ex (\<lambda>c. \<not> js_space c) v"

definition handleTextSubmit :: "wb \<Rightarrow> string \<Rightarrow> wb" where
  "handleTextSubmit st rid =
     (if trim_nonempty (tvalue (textInput st)) then
        (let worldPos = toWorldCoords st (tx (textInput st)) (ty (textInput st))
         in saveHistory st
              (shapes st @ [new_shape rid Text [snapped st worldPos] (color st)
                              (brushSize st / scale st) False (Some (tvalue (textInput st)))]))
      else st) \<lparr> textInput := (textInput st)\<lparr> visible := False, tvalue := [] \<rparr> \<rparr>"

text \<open>
  The handlers are written block by block. The block of the rotation and resize handles of
  \<open>startDrawing\<close> returns the state with which the handler returns, or \<open>None\<close> when the
  handler goes on to the statements after the block.
\<close>

definition grab_handle :: "wb \<Rightarrow> Point \<Rightarrow> wb option" where
  "grab_handle st pos =
     (if tool st = Move \<and> truthy_id (selectedShapeId st) then
        (case find_by_id (selectedShapeId st) (shapes st) of
           None \<Rightarrow> None
         | Some selectedShape \<Rightarrow>
             if truthy_flag (isLocked selectedShape) then None
             else if checkRotationHandleHit (scale st) pos selectedShape then
               Some (st\<lparr> isRotating := True, startPos := pos \<rparr>)
             else
               (case checkResizeHandleHit (scale st) pos selectedShape of
                  Some handle \<Rightarrow>
                    Some (st\<lparr> isResizing := True, activeResizeHandle := Some handle,
                               startPos := pos, currentPos := pos \<rparr>)
                | None \<Rightarrow> None))
      else None)"

text \<open>The block \<open>if (tool === 'move')\<close>: select the topmost shape under the pointer.\<close>

definition select_at :: "wb \<Rightarrow> Point \<Rightarrow> error + wb" where
  "select_at st pos =
     (case find_hit (scale st) pos (rev (shapes st)) of
        Inl err \<Rightarrow> Inl err
      | Inr (Some hit) \<Rightarrow>
          Inr (st\<lparr> selectedShapeId := Some (shape_id hit),
                    isDragging := (if \<not> truthy_flag (isLocked hit) then True
                                   else isDragging st) \<rparr>)
      | Inr None \<Rightarrow> Inr (st\<lparr> selectedShapeId := None \<rparr>))"

text \<open>The block \<open>if (tool === 'text')\<close>, with the position of the click on the canvas.\<close>

definition text_click :: "wb \<Rightarrow> real \<Rightarrow> real \<Rightarrow> string \<Rightarrow> wb" where
  "text_click st rawX rawY rid =
     (if visible (textInput st) then handleTextSubmit st rid
      else st\<lparr> textInput := \<lparr> visible = True, tx = rawX, ty = rawY, tvalue = [] \<rparr> \<rparr>)"

text \<open>The last statements: a drawing begins, and a freehand stroke enters the scene.\<close>

definition begin_drawing :: "wb \<Rightarrow> Point \<Rightarrow> string \<Rightarrow> wb" where
  "begin_drawing st snappedPos rid =
     (if tool st = Pencil \<or> tool st = Eraser then
        st\<lparr> isDrawing := True, selectedShapeId := None,
            shapes := shapes st @ [new_shape rid (tool st) [snappedPos] (color st)
                                     (brushSize st / scale st) False None] \<rparr>
      else st\<lparr> isDrawing := True, selectedShapeId := None \<rparr>)"

text \<open>
  The blocks after \<open>setStartPos(snappedPos); setCurrentPos(snappedPos)\<close> are applied to
  the state with these two updates; they read neither of the two.
\<close>

definition startDrawing :: "wb \<Rightarrow> mouse_event \<Rightarrow> string \<Rightarrow> error + wb" where
  "startDrawing st e rid =
     (case m_rect e of
        None \<Rightarrow> Inr st
      | Some (rleft, rtop) \<Rightarrow>
         (let rawX = m_clientX e - rleft;
              rawY = m_clientY e - rtop;
              pos = toWorldCoords st rawX rawY;
              snappedPos = snapped st pos;
              st1 = st\<lparr> startPos := snappedPos, currentPos := snappedPos \<rparr>
          in if isSpacePressed st \<or> m_button e = 1 \<or> m_button e = 2 \<or> tool st = Hand then
               Inr (st\<lparr> isPanning := True,
                         startPos := \<lparr> px = m_clientX e, py = m_clientY e \<rparr> \<rparr>)
             else
               (case grab_handle st pos of
                  Some grabbed \<Rightarrow> Inr grabbed
                | None \<Rightarrow>
                    if tool st = Move then select_at st1 pos
                    else if tool st = Text then Inr (text_click st1 rawX rawY rid)
                    else Inr (begin_drawing st1 snappedPos rid))))"

text \<open>
  \<open>Math.atan2(y, x)\<close> over the reals (the signs of zeros are not modelled).
\<close>

definition atan2 :: "real \<Rightarrow> real \<Rightarrow> real" where
  "atan2 v u =
     (if 0 < u then arctan (v / u)
      else if u < 0 \<and> 0 \<le> v then arctan (v / u) + pi
      else if u < 0 then arctan (v / u) - pi
      else if 0 < v then pi / 2
      else if v < 0 then - (pi / 2)
      else 0)"

text \<open>The updater of the rotating branch; it throws at a selected shape without points.\<close>

fun rotate_selected ::
  "string option \<Rightarrow> Point \<Rightarrow> Point shape list \<Rightarrow> error + Point shape list" where
  "rotate_selected sel pos [] = Inr []"
| "rotate_selected sel pos (s # ss) =
     (if Some (shape_id s) \<noteq> sel then
        (case rotate_selected sel pos ss of
           Inl err \<Rightarrow> Inl err
         | Inr ss' \<Rightarrow> Inr (s # ss'))
      else
        (case first_two (points s) of
           Inl err \<Rightarrow> Inl err
         | Inr (p1, p2) \<Rightarrow>
            (let cx = (px p1 + px p2) / 2;
                 cy = (py p1 + py p2) / 2;
                 angle = atan2 (py pos - cy) (px pos - cx) + pi / 2
             in case rotate_selected sel pos ss of
                  Inl err \<Rightarrow> Inl err
                | Inr ss' \<Rightarrow> Inr (s\<lparr> rotation := Some angle \<rparr> # ss'))))"

text \<open>
  The resizing branch, on the coordinates: \<open>newPoints[i].x += dx\<close> replaces the abscissa of
  the point at index \<open>i\<close>. (The sharing of the point objects is the subject of the store
  model below.)
\<close>

definition add_x :: "nat \<Rightarrow> real \<Rightarrow> Point list \<Rightarrow> Point list" where
  "add_x i d pts = pts[i := (pts ! i)\<lparr> px := px (pts ! i) + d \<rparr>]"

definition add_y :: "nat \<Rightarrow> real \<Rightarrow> Point list \<Rightarrow> Point list" where
  "add_y i d pts = pts[i := (pts ! i)\<lparr> py := py (pts ! i) + d \<rparr>]"

definition resize_points :: "ResizeHandle \<Rightarrow> real \<Rightarrow> real \<Rightarrow> Point list \<Rightarrow> Point list" where
  "resize_points h dx dy pts =
     (case pts of
        p1 # p2 # ps \<Rightarrow>
          (let minXIdx = (if px p1 < px p2 then 0 else 1);
               maxXIdx = (if px p1 < px p2 then 1 else 0);
               minYIdx = (if py p1 < py p2 then 0 else 1);
               maxYIdx = (if py p1 < py p2 then 1 else 0)
           in case h of
                NW \<Rightarrow> add_y minYIdx dy (add_x minXIdx dx pts)
              | NN \<Rightarrow> add_y minYIdx dy pts
              | NE \<Rightarrow> add_y minYIdx dy (add_x maxXIdx dx pts)
              | EE \<Rightarrow> add_x maxXIdx dx pts
              | SE \<Rightarrow> add_y maxYIdx dy (add_x maxXIdx dx pts)
              | SS \<Rightarrow> add_y maxYIdx dy pts
              | SW \<Rightarrow> add_y maxYIdx dy (add_x minXIdx dx pts)
              | WW \<Rightarrow> add_x minXIdx dx pts)
      | _ \<Rightarrow> pts)"

definition resize_selected ::
  "string option \<Rightarrow> ResizeHandle \<Rightarrow> real \<Rightarrow> real \<Rightarrow> Point shape list \<Rightarrow> Point shape list" where
  "resize_selected sel h dx dy ss =
     map (\<lambda>s. if Some (shape_id s) \<noteq> sel \<or> length (points s) < 2 then s
               else s\<lparr> points := resize_points h dx dy (points s) \<rparr>) ss"

definition append_sample :: "Point \<Rightarrow> Point shape list \<Rightarrow> Point shape list" where
  "append_sample p prev =
     (if prev = [] then prev
      else if shape_tool (last prev) = Pencil \<or> shape_tool (last prev) = Eraser then
        butlast prev @ [(last prev)\<lparr> points := points (last prev) @ [p] \<rparr>]
      else prev)"

text \<open>\<open>hit?.id || null\<close>\<close>

definition hovered_id :: "Point shape option \<Rightarrow> string option" where
  "hovered_id hit =
     (case hit of None \<Rightarrow> None | Some s \<Rightarrow> if shape_id s = [] then None else Some (shape_id s))"

text \<open>
  The blocks of \<open>draw\<close>. The hover block writes \<open>hoveredShapeId\<close> only, which no later
  block reads, so the later blocks are applied to the state it returns.
\<close>

definition hover_update :: "wb \<Rightarrow> Point \<Rightarrow> error + wb" where
  "hover_update st pos =
     (if tool st = Move \<and> \<not> isDragging st \<and> \<not> isResizing st \<and> \<not> isRotating st then
        (case find_hit (scale st) pos (rev (shapes st)) of
           Inl err \<Rightarrow> Inl err
         | Inr hit \<Rightarrow> Inr (st\<lparr> hoveredShapeId := hovered_id hit \<rparr>))
      else Inr st)"

definition edit_step :: "wb \<Rightarrow> Point \<Rightarrow> Point \<Rightarrow> error + wb" where
  "edit_step st pos snappedPos =
     (let dx = px snappedPos - px (currentPos st);
          dy = py snappedPos - py (currentPos st)
      in if isDragging st \<and> truthy_id (selectedShapeId st) then
           Inr (st\<lparr> shapes := move_selected (selectedShapeId st) dx dy (shapes st),
                     currentPos := snappedPos \<rparr>)
         else if isRotating st \<and> truthy_id (selectedShapeId st) then
           (case rotate_selected (selectedShapeId st) pos (shapes st) of
              Inl err \<Rightarrow> Inl err
            | Inr ss \<Rightarrow> Inr (st\<lparr> shapes := ss \<rparr>))
         else if isResizing st \<and> truthy_id (selectedShapeId st)
                 \<and> activeResizeHandle st \<noteq> None then
           (case activeResizeHandle st of
              None \<Rightarrow> Inr st
            | Some h \<Rightarrow>
                Inr (st\<lparr> shapes := resize_selected (selectedShapeId st) h dx dy (shapes st),
                          currentPos := snappedPos \<rparr>))
         else if \<not> isDrawing st then Inr (st\<lparr> currentPos := snappedPos \<rparr>)
         else if tool st = Pencil \<or> tool st = Eraser then
           Inr (st\<lparr> currentPos := snappedPos,
                     shapes := append_sample snappedPos (shapes st) \<rparr>)
         else Inr (st\<lparr> currentPos := snappedPos \<rparr>))"

definition draw :: "wb \<Rightarrow> mouse_event \<Rightarrow> error + wb" where
  "draw st e =
     (if isPanning st then
        Inr (st\<lparr> offset := \<lparr> px = px (offset st) + (m_clientX e - px (startPos st)),
                              py = py (offset st) + (m_clientY e - py (startPos st)) \<rparr>,
                  startPos := \<lparr> px = m_clientX e, py = m_clientY e \<rparr> \<rparr>)
      else case m_rect e of
        None \<Rightarrow> Inr st
      | Some (rleft, rtop) \<Rightarrow>
         (let pos = toWorldCoords st (m_clientX e - rleft) (m_clientY e - rtop);
              snappedPos = snapped st pos
          in case hover_update st pos of
               Inl err \<Rightarrow> Inl err
             | Inr hovered \<Rightarrow> edit_step hovered pos snappedPos))"

definition stopDrawing :: "wb \<Rightarrow> string \<Rightarrow> wb" where
  "stopDrawing st rid =
     (if isPanning st then st\<lparr> isPanning := False \<rparr>
      else if isDragging st \<or> isResizing st \<or> isRotating st then
        (saveHistory st (shapes st))
          \<lparr> isDragging := False, isResizing := False, isRotating := False,
            activeResizeHandle := None \<rparr>
      else if \<not> isDrawing st then st
      else if tool st \<notin> {Pencil, Eraser, Move, Hand} then
        (let dx = px (currentPos st) - px (startPos st);
             dy = py (currentPos st) - py (startPos st);
             sz = max \<bar>dx\<bar> \<bar>dy\<bar>;
             constrained = (isShiftPressed st \<and> tool st \<in> {Rect, Circle, RoundRect});
             endX = (if constrained then px (startPos st) + (if dx \<ge> 0 then sz else - sz)
                     else px (currentPos st));
             endY = (if constrained then py (startPos st) + (if dy \<ge> 0 then sz else - sz)
                     else py (currentPos st))
         in (saveHistory st
               (shapes st @ [new_shape rid (tool st)
                               [startPos st, \<lparr> px = applySnap st endX, py = applySnap st endY \<rparr>]
                               (color st) (brushSize st / scale st) (isFilled st) None]))
              \<lparr> isDrawing := False \<rparr>)
      else (saveHistory st (shapes st)) \<lparr> isDrawing := False \<rparr>)"

section \<open>Interaction state machine: keyboard events\<close>

record key_event =
  k_key :: string
  k_ctrlKey :: bool
  k_metaKey :: bool
  k_shiftKey :: bool
  k_inputFocused :: bool

text \<open>
  \<open>k_inputFocused\<close> is \<open>document.activeElement?.tagName === 'INPUT'\<close>. The tests on
  \<open>e.key\<close> in \<open>handleKeyDown\<close> exclude one another, so its sequence of \<open>if\<close> statements
  is a chain.

  The two key listeners are installed by an effect, and installed again after every render
  in which a value of its dependency list has changed. The list names \<open>selectedShapeId\<close>,
  \<open>shapes\<close>, \<open>saveHistory\<close>, \<open>textInput.visible\<close>, \<open>tool\<close>, \<open>previousTool\<close>,
  \<open>isSpacePressed\<close>, \<open>scale\<close>, \<open>handleCopy\<close>, \<open>handlePaste\<close>, \<open>handleDuplicate\<close>,
  \<open>toggleLock\<close> and \<open>nudgeSelected\<close>, and it names none of \<open>undoStack\<close>, \<open>redoStack\<close>,
  \<open>undo\<close> and \<open>redo\<close>. So the listener reads the current value of every variable of the
  list, in the state \<open>st\<close>, and on Ctrl+Z it calls the \<open>undo\<close> or the \<open>redo\<close> of the render
  in which it was installed. \<open>seen\<close> is the state of that render: what these two closures
  read (the stacks, and the scene) is read in \<open>seen\<close>, and their updates of the form
  \<open>setRedoStack(r => ...)\<close> apply to the current stacks. A change of a stack alone does not
  install the listener again, so \<open>undoStack seen\<close> can be older than \<open>undoStack st\<close>.
\<close>

definition undo_seen :: "wb \<Rightarrow> wb \<Rightarrow> wb" where
  "undo_seen seen st =
     (if undoStack seen = [] then st
      else st\<lparr> redoStack := redoStack st @ [shapes seen],
               undoStack := butlast (undoStack st),
               shapes := last (undoStack seen),
               selectedShapeId := None \<rparr>)"

definition redo_seen :: "wb \<Rightarrow> wb \<Rightarrow> wb" where
  "redo_seen seen st =
     (if redoStack seen = [] then st
      else st\<lparr> undoStack := undoStack st @ [shapes seen],
               redoStack := butlast (redoStack st),
               shapes := last (redoStack seen) \<rparr>)"

definition handleKeyDown :: "wb \<Rightarrow> wb \<Rightarrow> key_event \<Rightarrow> string \<Rightarrow> wb" where
  "handleKeyDown st seen e rid =
     (if visible (textInput st) then st
      else if k_key e = ''Shift'' then st\<lparr> isShiftPressed := True \<rparr>
      else if k_key e = '' '' then
        (if \<not> k_inputFocused e \<and> \<not> isSpacePressed st
         then st\<lparr> isSpacePressed := True, previousTool := tool st, tool := Hand \<rparr>
         else st)
      else if k_key e = ''Backspace'' \<or> k_key e = ''Delete'' then
        (if truthy_id (selectedShapeId st) then
           (if truthy_flag (case find_by_id (selectedShapeId st) (shapes st) of
                              None \<Rightarrow> None | Some s \<Rightarrow> isLocked s)
            then st
            else (saveHistory st (filter (\<lambda>s. Some (shape_id s) \<noteq> selectedShapeId st) (shapes st)))
                   \<lparr> selectedShapeId := None \<rparr>)
         else st)
      else if (k_ctrlKey e \<or> k_metaKey e) \<and> k_key e = ''c'' then handleCopy st
      else if (k_ctrlKey e \<or> k_metaKey e) \<and> k_key e = ''v'' then handlePaste st rid
      else if (k_ctrlKey e \<or> k_metaKey e) \<and> k_key e = ''d'' then handleDuplicate st rid
      else if (k_ctrlKey e \<or> k_metaKey e) \<and> k_key e = ''l'' then toggleLock st
      else if (k_ctrlKey e \<or> k_metaKey e) \<and> k_key e = ''z'' then
        (if k_shiftKey e then redo_seen seen st else undo_seen seen st)
      else if truthy_id (selectedShapeId st) then
        (let amount = (if k_shiftKey e then 10 else 1) / scale st
         in if k_key e = ''ArrowUp'' then nudgeSelected st 0 (- amount)
            else if k_key e = ''ArrowDown'' then nudgeSelected st 0 amount
            else if k_key e = ''ArrowLeft'' then nudgeSelected st (- amount) 0
            else if k_key e = ''ArrowRight'' then nudgeSelected st amount 0
            else st)
      else st)"

definition handleKeyUp :: "wb \<Rightarrow> key_event \<Rightarrow> wb" where
  "handleKeyUp st e =
     (if visible (textInput st) then st
      else if k_key e = ''Shift'' then st\<lparr> isShiftPressed := False \<rparr>
      else if k_key e = '' '' then
        st\<lparr> isSpacePressed := False,
            tool := (if tool st = Hand then previousTool st else tool st) \<rparr>
      else st)"

section \<open>Gestures\<close>

text \<open>
  A pointer gesture is a mouse-down, a sequence of mouse-moves and a mouse-up, each handled
  in the state the previous one left. An exception in a handler ends the gesture.
\<close>

fun draws :: "wb \<Rightarrow> mouse_event list \<Rightarrow> error + wb" where
  "draws st [] = Inr st"
| "draws st (e # es) = (case draw st e of Inl err \<Rightarrow> Inl err | Inr st' \<Rightarrow> draws st' es)"

definition gesture ::
  "wb \<Rightarrow> mouse_event \<Rightarrow> string \<Rightarrow> mouse_event list \<Rightarrow> string \<Rightarrow> error + wb" where
  "gesture st down rid moves rid' =
     (case startDrawing st down rid of
        Inl err \<Rightarrow> Inl err
      | Inr st1 \<Rightarrow>
          (case draws st1 moves of
             Inl err \<Rightarrow> Inl err
           | Inr st2 \<Rightarrow> Inr (stopDrawing st2 rid')))"

text \<open>No interaction is in progress.\<close>

definition idle :: "wb \<Rightarrow> bool" where
  "idle st = (\<not> isPanning st \<and> \<not> isDrawing st \<and> \<not> isDragging st
              \<and> \<not> isResizing st \<and> \<not> isRotating st)"

text \<open>A handler that runs in the state a gesture left, when the gesture ended normally.\<close>

definition after :: "(wb \<Rightarrow> wb) \<Rightarrow> error + wb \<Rightarrow> error + wb" where
  "after f r = (case r of Inl err \<Rightarrow> Inl err | Inr st \<Rightarrow> Inr (f st))"

text \<open>The points of the shapes of the scene that a gesture left.\<close>

definition scene_points :: "error + wb \<Rightarrow> Point list list option" where
  "scene_points r = (case r of Inl err \<Rightarrow> None | Inr st \<Rightarrow> Some (map points (shapes st)))"

text \<open>The scene that a gesture left.\<close>

definition scene :: "error + wb \<Rightarrow> Point shape list option" where
  "scene r = (case r of Inl err \<Rightarrow> None | Inr st \<Rightarrow> Some (shapes st))"

text \<open>
  The world position of the pointer at a mouse event, as \<open>startDrawing\<close> and \<open>draw\<close>
  compute it when the canvas is mounted, and the positions of a sequence of mouse-moves
  rounded as \<open>draw\<close> rounds them. A mouse-move without a mounted canvas is skipped, as
  \<open>draw\<close> returns at once.
\<close>

definition pointer :: "wb \<Rightarrow> mouse_event \<Rightarrow> Point option" where
  "pointer st e =
     (case m_rect e of
        None \<Rightarrow> None
      | Some (rleft, rtop) \<Rightarrow> Some (toWorldCoords st (m_clientX e - rleft) (m_clientY e - rtop)))"

definition samples :: "wb \<Rightarrow> mouse_event list \<Rightarrow> Point list" where
  "samples st es = map (snapped st) (List.map_filter (pointer st) es)"

text \<open>The left button at a canvas position, the canvas at the origin of the client area.\<close>

definition mouse_at :: "real \<Rightarrow> real \<Rightarrow> mouse_event" where
  "mouse_at u v = \<lparr> m_clientX = u, m_clientY = v, m_button = 0, m_rect = Some (0, 0) \<rparr>"

text \<open>Concrete inputs used by the scenarios below.\<close>

definition wheel_example :: wheel_event where
  "wheel_example = \<lparr> w_ctrlKey = True, w_metaKey = False, w_shiftKey = False,
     w_deltaX = 0, w_deltaY = - 100, w_clientX = 400, w_clientY = 300,
     w_rect = Some (0, 0) \<rparr>"

definition view_example :: wb where
  "view_example = initial\<lparr> scale := 2, offset := \<lparr>px = 30, py = - 10\<rparr> \<rparr>"

definition selected_example :: wb where
  "selected_example = initial\<lparr> selectedShapeId := Some ''a'' \<rparr>"

definition history_example :: wb where
  "history_example =
     (undo (saveHistory (saveHistory initial []) []))\<lparr> selectedShapeId := Some ''a'' \<rparr>"

definition stroke_moves :: "mouse_event list" where
  "stroke_moves = [mouse_at 20 10, mouse_at 30 10, mouse_at 40 10, mouse_at 50 10]"

definition stroke_example :: "error + wb" where
  "stroke_example = gesture initial (mouse_at 10 10) ''s1'' stroke_moves ''s2''"

definition stroke_points :: "Point list" where
  "stroke_points = [\<lparr>px = 10, py = 10\<rparr>, \<lparr>px = 20, py = 10\<rparr>, \<lparr>px = 30, py = 10\<rparr>,
                    \<lparr>px = 40, py = 10\<rparr>, \<lparr>px = 50, py = 10\<rparr>]"

definition locked_rect :: "Point shape" where
  "locked_rect = (new_shape ''r1'' Rect [\<lparr>px = 0, py = 0\<rparr>, \<lparr>px = 100, py = 50\<rparr>]
                    ''#6366f1'' 5 False None) \<lparr> isLocked := Some True \<rparr>"

definition locked_example :: wb where
  "locked_example = initial\<lparr> shapes := [locked_rect], tool := Move,
                             selectedShapeId := Some ''r1'', clipboard := Some locked_rect \<rparr>"

definition zoomed_example :: wb where
  "zoomed_example = initial\<lparr> shapes := [locked_rect\<lparr> isLocked := None \<rparr>], tool := Move,
                             selectedShapeId := Some ''r1'', scale := 2 \<rparr>"

definition arrow_key :: "string \<Rightarrow> bool \<Rightarrow> key_event" where
  "arrow_key k shift = \<lparr> k_key = k, k_ctrlKey = False, k_metaKey = False, k_shiftKey = shift,
                          k_inputFocused = False \<rparr>"

definition ctrl_z :: key_event where
  "ctrl_z = \<lparr> k_key = ''z'', k_ctrlKey = True, k_metaKey = False, k_shiftKey = False,
              k_inputFocused = False \<rparr>"

definition arrow_keys :: "string list" where
  "arrow_keys = [''ArrowUp'', ''ArrowDown'', ''ArrowLeft'', ''ArrowRight'']"

definition arrow_dir :: "string \<Rightarrow> real \<times> real" where
  "arrow_dir k = (if k = ''ArrowUp'' then (0, - 1) else if k = ''ArrowDown'' then (0, 1)
                  else if k = ''ArrowLeft'' then (- 1, 0) else (1, 0))"

section \<open>The hit test in the words of the specification\<close>

text \<open>
  The bounding box of a shape, as \<open>render\<close> computes it for the selection box
  (\<open>s_minX = Math.min(...pts_.map(p => p.x))\<close> and so on), and its center.
\<close>

definition bbox_center :: "Point list \<Rightarrow> Point option" where
  "bbox_center pts =
     (case pts of
        [] \<Rightarrow> None
      | p # ps \<Rightarrow>
          Some \<lparr> px = (fold min (map px ps) (px p) + fold max (map px ps) (px p)) / 2,
                 py = (fold min (map py ps) (py p) + fold max (map py ps) (py p)) / 2 \<rparr>)"

text \<open>
  The rule of the specification for a rotated shape: the query point is rotated by
  \<open>- rotation\<close> about the center of the bounding box of the shape, then the test of the
  unrotated shape is applied.
\<close>

definition spec_checkHit :: "real \<Rightarrow> Point \<Rightarrow> Point shape \<Rightarrow> error + bool" where
  "spec_checkHit sc pos s =
     (case rot_angle s of
        None \<Rightarrow> checkHit sc pos s
      | Some r \<Rightarrow>
          (case bbox_center (points s) of
             None \<Rightarrow> Inl TypeError
           | Some c \<Rightarrow>
               checkHit sc (rotate_by (- r) (px c) (py c) pos) (s\<lparr> rotation := None \<rparr>)))"

definition turned_stroke :: "Point shape" where
  "turned_stroke =
     (new_shape ''p1'' Pencil [\<lparr>px = 0, py = 0\<rparr>, \<lparr>px = 10, py = 0\<rparr>, \<lparr>px = 100, py = 0\<rparr>]
        ''#6366f1'' 5 False None) \<lparr> rotation := Some pi \<rparr>"

definition turned_rect :: "Point shape" where
  "turned_rect =
     (new_shape ''r1'' Rect [\<lparr>px = 0, py = 0\<rparr>, \<lparr>px = 100, py = 50\<rparr>]
        ''#6366f1'' 5 False None) \<lparr> rotation := Some (pi / 2) \<rparr>"

section \<open>Store model: the point objects behind the shapes\<close>

text \<open>
  In the browser every point is an object and a shape holds references to its points. The
  model above works on the coordinates, which is what the live scene shows as long as no
  point object is written to. One branch writes: the resizing branch of \<open>draw\<close> copies the
  array of a shape (\<open>[...s.points]\<close>, the same point objects in a new array) and then adds
  to the fields of these objects (\<open>newPoints[i].x += dx\<close>). The store model keeps the point
  objects in a heap of addresses; a shape of type \<open>nat shape\<close> lists the addresses of its
  points, and the scene and the history entries are lists of such shapes. \<open>saveHistory\<close>
  pushes the array \<open>shapes\<close> itself, so an entry holds the very shapes of the scene.
\<close>

record store =
  heap :: "nat \<Rightarrow> Point"
  r_shapes :: "nat shape list"
  r_undoStack :: "nat shape list list"
  r_redoStack :: "nat shape list list"
  r_selectedShapeId :: "string option"
  r_activeResizeHandle :: "ResizeHandle option"
  r_currentPos :: Point

text \<open>What a shape of the store shows: its points read from the heap.\<close>

definition contents :: "(nat \<Rightarrow> Point) \<Rightarrow> nat shape \<Rightarrow> Point shape" where
  "contents h s =
     \<lparr> shape_id = shape_id s, shape_tool = shape_tool s, points = map h (points s),
       shape_color = shape_color s, shape_size = shape_size s,
       shape_isFilled = shape_isFilled s, isLocked = isLocked s, rotation = rotation s,
       shape_text = shape_text s \<rparr>"

definition saveHistory_ref :: "store \<Rightarrow> nat shape list \<Rightarrow> store" where
  "saveHistory_ref st newShapes =
     st\<lparr> r_undoStack := slice_last (MAX_HISTORY - 1) (r_undoStack st) @ [r_shapes st],
         r_redoStack := [],
         r_shapes := newShapes \<rparr>"

definition add_x_ref :: "nat \<Rightarrow> real \<Rightarrow> (nat \<Rightarrow> Point) \<Rightarrow> (nat \<Rightarrow> Point)" where
  "add_x_ref a d h = h(a := (h a)\<lparr> px := px (h a) + d \<rparr>)"

definition add_y_ref :: "nat \<Rightarrow> real \<Rightarrow> (nat \<Rightarrow> Point) \<Rightarrow> (nat \<Rightarrow> Point)" where
  "add_y_ref a d h = h(a := (h a)\<lparr> py := py (h a) + d \<rparr>)"

text \<open>
  The body of the updater for one shape of at least two points: the indices are chosen
  from the coordinates read before the writes, then the objects at these indices are
  written.
\<close>

definition resize_in_place ::
  "ResizeHandle \<Rightarrow> real \<Rightarrow> real \<Rightarrow> nat list \<Rightarrow> (nat \<Rightarrow> Point) \<Rightarrow> (nat \<Rightarrow> Point)" where
  "resize_in_place hnd dx dy addrs h =
     (case addrs of
        a1 # a2 # as \<Rightarrow>
          (let minX = (if px (h a1) < px (h a2) then a1 else a2);
               maxX = (if px (h a1) < px (h a2) then a2 else a1);
               minY = (if py (h a1) < py (h a2) then a1 else a2);
               maxY = (if py (h a1) < py (h a2) then a2 else a1)
           in case hnd of
                NW \<Rightarrow> add_y_ref minY dy (add_x_ref minX dx h)
              | NN \<Rightarrow> add_y_ref minY dy h
              | NE \<Rightarrow> add_y_ref minY dy (add_x_ref maxX dx h)
              | EE \<Rightarrow> add_x_ref maxX dx h
              | SE \<Rightarrow> add_y_ref maxY dy (add_x_ref maxX dx h)
              | SS \<Rightarrow> add_y_ref maxY dy h
              | SW \<Rightarrow> add_y_ref maxY dy (add_x_ref minX dx h)
              | WW \<Rightarrow> add_x_ref minX dx h)
      | _ \<Rightarrow> h)"

text \<open>
  The resizing branch of \<open>draw\<close> for the snapped pointer position: the shapes of the scene
  are visited in order; the new scene lists new shape objects with the same point
  addresses, so only the heap and \<open>currentPos\<close> change.
\<close>

definition draw_resizing_ref :: "store \<Rightarrow> Point \<Rightarrow> store" where
  "draw_resizing_ref st snappedPos =
     (case r_activeResizeHandle st of
        None \<Rightarrow> st
      | Some hnd \<Rightarrow>
          (let dx = px snappedPos - px (r_currentPos st);
               dy = py snappedPos - py (r_currentPos st)
           in st\<lparr> heap :=
                    fold (\<lambda>s h. if Some (shape_id s) \<noteq> r_selectedShapeId st \<or> length (points s) < 2
                                 then h else resize_in_place hnd dx dy (points s) h)
                         (r_shapes st) (heap st),
                  r_currentPos := snappedPos \<rparr>))"

definition stored_rect :: "nat shape" where
  "stored_rect =
     \<lparr> shape_id = ''r1'', shape_tool = Rect, points = [0, 1], shape_color = ''#6366f1'',
       shape_size = 5, shape_isFilled = False, isLocked = None, rotation = None,
       shape_text = None \<rparr>"

text \<open>
  The store after a rectangle (0,0)-(100,50) was drawn on the empty scene and selected, a
  click on it with the selection tool was released (the release calls
  \<open>saveHistory(shapes)\<close>), and its south-east handle was grabbed at (100, 50).
\<close>

definition store_drawn :: store where
  "store_drawn =
     \<lparr> heap = (\<lambda>a. \<lparr>px = 0, py = 0\<rparr>)(1 := \<lparr>px = 100, py = 50\<rparr>),
       r_shapes = [stored_rect], r_undoStack = [[]], r_redoStack = [],
       r_selectedShapeId = Some ''r1'', r_activeResizeHandle = None,
       r_currentPos = \<lparr>px = 100, py = 50\<rparr> \<rparr>"

definition store_grabbed :: store where
  "store_grabbed =
     (saveHistory_ref store_drawn (r_shapes store_drawn))
       \<lparr> r_activeResizeHandle := Some SE, r_currentPos := \<lparr>px = 100, py = 50\<rparr> \<rparr>"

section \<open>Predicates on states\<close>

text \<open>
  The shape \<open>s\<close> is in the scene, the selection tool is active, and \<open>s\<close> is not the
  shape that a running drag, resize or rotation works on.
\<close>

definition untouched :: "Point shape \<Rightarrow> wb \<Rightarrow> bool" where
  "untouched s st =
     (s \<in> set (shapes st) \<and> tool st = Move
      \<and> (if isDragging st \<or> isResizing st \<or> isRotating st
          then selectedShapeId st \<noteq> Some (shape_id s) else True))"

text \<open>Every shape of the scene has at least one point.\<close>

definition with_points :: "wb \<Rightarrow> bool" where
  "with_points st = list_all (\<lambda>t. points t \<noteq> []) (shapes st)"

text \<open>Two states with the same view transform and the same grid.\<close>

definition same_view :: "wb \<Rightarrow> wb \<Rightarrow> bool" where
  "same_view st st' = (scale st' = scale st \<and> offset st' = offset st
     \<and> snapToGrid st' = snapToGrid st \<and> gridSpacing st' = gridSpacing st)"

section \<open>Grid snap: predicates and scenes\<close>

text \<open>\<open>v\<close> is an exact multiple of the grid spacing \<open>g\<close>.\<close>

definition on_grid :: "real \<Rightarrow> real \<Rightarrow> bool" where
  "on_grid g v = (real_of_int \<lfloor>v / g\<rfloor> * g = v)"

definition point_on_grid :: "real \<Rightarrow> Point \<Rightarrow> bool" where
  "point_on_grid g p = (on_grid g (px p) \<and> on_grid g (py p))"

text \<open>A drawing is in progress and no other interaction is.\<close>

definition drawing_mode :: "wb \<Rightarrow> bool" where
  "drawing_mode st =
     (\<not> isPanning st \<and> \<not> isDragging st \<and> \<not> isResizing st \<and> \<not> isRotating st \<and> isDrawing st)"

text \<open>A mouse-down on the mounted canvas that does not start a pan.\<close>

definition primary_down :: "wb \<Rightarrow> mouse_event \<Rightarrow> bool" where
  "primary_down st e =
     (m_rect e \<noteq> None \<and> m_button e \<noteq> 1 \<and> m_button e \<noteq> 2 \<and> \<not> isSpacePressed st
      \<and> tool st \<noteq> Hand)"

definition two_point_tools :: "Tool list" where
  "two_point_tools = [Rect, RoundRect, Circle, Line, Arrow, DashedLine]"

definition off_grid_rect :: "Point shape" where
  "off_grid_rect = new_shape ''r1'' Rect [\<lparr>px = 5, py = 5\<rparr>, \<lparr>px = 105, py = 55\<rparr>]
                     ''#6366f1'' 5 False None"

definition snap_scene :: wb where
  "snap_scene = initial\<lparr> snapToGrid := True, tool := Move, shapes := [off_grid_rect] \<rparr>"

definition snap_pencil :: wb where
  "snap_pencil = initial\<lparr> snapToGrid := True \<rparr>"

definition snap_rect :: wb where
  "snap_rect = initial\<lparr> snapToGrid := True, tool := Rect \<rparr>"

definition snap_square :: wb where
  "snap_square = initial\<lparr> snapToGrid := True, tool := Rect, isShiftPressed := True \<rparr>"

definition snap_blank :: wb where
  "snap_blank = initial\<lparr> snapToGrid := True, tool := Text,
                  textInput := \<lparr> visible = True, tx = 50, ty = 30, tvalue = [0x20, 0xA0] \<rparr> \<rparr>"

definition snap_text :: wb where
  "snap_text = initial\<lparr> snapToGrid := True, tool := Text,
                 textInput := \<lparr> visible = True, tx = 50, ty = 30, tvalue = [0x68, 0x69] \<rparr> \<rparr>"

definition collision_example :: wb where
  "collision_example =
     initial\<lparr> shapes := [new_shape ''k3j9x0a2b'' Rect [\<lparr>px = 0, py = 0\<rparr>, \<lparr>px = 100, py = 50\<rparr>]
                             ''#6366f1'' 5 False None],
              tool := Move, selectedShapeId := Some ''k3j9x0a2b'' \<rparr>"

text \<open>A sequence of commits: \<open>saveHistory\<close> called with each new scene in turn.\<close>

fun commits :: "wb \<Rightarrow> Point shape list list \<Rightarrow> wb" where
  "commits st [] = st"
| "commits st (n # ns) = commits (saveHistory st n) ns"

definition grid_rect :: "Point shape" where
  "grid_rect = new_shape ''r1'' Rect [\<lparr>px = 0, py = 0\<rparr>, \<lparr>px = 80, py = 40\<rparr>]
                 ''#6366f1'' 5 False None"

definition snap_resize_scene :: wb where
  "snap_resize_scene = initial\<lparr> snapToGrid := True, tool := Move, shapes := [grid_rect],
                                selectedShapeId := Some ''r1'' \<rparr>"

section \<open>Coordinate mapper: round trip and anchored zoom\<close>

lemma MIN_SCALE_pos: "0 < MIN_SCALE"
  by (simp add: MIN_SCALE_def)

lemma handleWheel_scale_bounds:
  "MIN_SCALE \<le> min (max MIN_SCALE v) MAX_SCALE \<and> min (max MIN_SCALE v) MAX_SCALE \<le> MAX_SCALE"
  by (simp add: MIN_SCALE_def MAX_SCALE_def)

text \<open>
  Claim C4. For every point, every scale between \<open>MIN_SCALE\<close> and \<open>MAX_SCALE\<close> and every
  offset, mapping the point to screen coordinates and back to world coordinates gives the
  point again (exactly, over the reals).
\<close>

theorem toWorld_toScreen_roundtrip:
  assumes "MIN_SCALE \<le> scale st" and "scale st \<le> MAX_SCALE"
  shows "toWorldCoords st (px (toScreenCoords st wx wy)) (py (toScreenCoords st wx wy))
           = \<lparr>px = wx, py = wy\<rparr>
       \<and> MIN_SCALE = 0.05 \<and> MAX_SCALE = 20"
proof -
  from assms(1) MIN_SCALE_pos have "scale st \<noteq> 0" by linarith
  then show ?thesis
    by (simp add: toWorldCoords_def toScreenCoords_def MIN_SCALE_def MAX_SCALE_def)
qed

theorem toWorld_toScreen_roundtrip_witness:
  "MIN_SCALE \<le> scale view_example \<and> scale view_example \<le> MAX_SCALE \<and>
   toWorldCoords view_example (px (toScreenCoords view_example 7 (- 3)))
       (py (toScreenCoords view_example 7 (- 3))) = \<lparr>px = 7, py = - 3\<rparr>"
  using toWorld_toScreen_roundtrip [of view_example 7 "- 3"]
  by (simp add: view_example_def initial_def MIN_SCALE_def MAX_SCALE_def)

text \<open>
  Claim C3. A zoom wheel event (control or meta held, canvas mounted) with the pointer at
  canvas position \<open>m\<close> sets the scale to the product of the old scale and the factor,
  clamped to \<open>[MIN_SCALE, MAX_SCALE] = [0.05, 20]\<close>, and the offset to \<open>m - w * scale'\<close>
  where \<open>w\<close> is the world point under the pointer before the zoom (the prior scale is
  positive, so \<open>w\<close> is the point that the old view maps to \<open>m\<close>); that world point is
  mapped to \<open>m\<close> again by the new view. With the pointer at (400, 300), scale 1, offset
  (0, 0) and factor 1.1 the new scale is 1.1 and world point (400, 300) is at screen
  (400, 300).
\<close>

theorem handleWheel_zoom_anchored:
  assumes "w_ctrlKey e \<or> w_metaKey e" and "w_rect e = Some (rl, rt)" and "0 < scale st"
  shows "scale (handleWheel st e) = min (max MIN_SCALE (scale st * zoomFactor e)) MAX_SCALE
       \<and> MIN_SCALE = 0.05 \<and> MAX_SCALE = 20
       \<and> toScreenCoords st
             (px (toWorldCoords st (w_clientX e - rl) (w_clientY e - rt)))
             (py (toWorldCoords st (w_clientX e - rl) (w_clientY e - rt)))
           = \<lparr> px = w_clientX e - rl, py = w_clientY e - rt \<rparr>
       \<and> offset (handleWheel st e) =
           \<lparr> px = (w_clientX e - rl)
                   - px (toWorldCoords st (w_clientX e - rl) (w_clientY e - rt))
                     * scale (handleWheel st e),
             py = (w_clientY e - rt)
                   - py (toWorldCoords st (w_clientX e - rl) (w_clientY e - rt))
                     * scale (handleWheel st e) \<rparr>
       \<and> toScreenCoords (handleWheel st e)
             (px (toWorldCoords st (w_clientX e - rl) (w_clientY e - rt)))
             (py (toWorldCoords st (w_clientX e - rl) (w_clientY e - rt)))
           = \<lparr> px = w_clientX e - rl, py = w_clientY e - rt \<rparr>
       \<and> zoomFactor wheel_example = 1.1
       \<and> scale (handleWheel initial wheel_example) = 1.1
       \<and> toWorldCoords initial 400 300 = \<lparr>px = 400, py = 300\<rparr>
       \<and> toScreenCoords (handleWheel initial wheel_example) 400 300 = \<lparr>px = 400, py = 300\<rparr>"
proof -
  have zf: "zoomFactor wheel_example = 1.1"
    by (simp add: zoomFactor_def wheel_example_def)
  have general: "scale (handleWheel st e) = min (max MIN_SCALE (scale st * zoomFactor e)) MAX_SCALE"
    using assms by (simp add: handleWheel_def Let_def)
  have under: "toScreenCoords st
             (px (toWorldCoords st (w_clientX e - rl) (w_clientY e - rt)))
             (py (toWorldCoords st (w_clientX e - rl) (w_clientY e - rt)))
           = \<lparr> px = w_clientX e - rl, py = w_clientY e - rt \<rparr>"
    using assms(3) by (simp add: toScreenCoords_def toWorldCoords_def)
  have off: "offset (handleWheel st e) =
           \<lparr> px = (w_clientX e - rl)
                   - px (toWorldCoords st (w_clientX e - rl) (w_clientY e - rt))
                     * scale (handleWheel st e),
             py = (w_clientY e - rt)
                   - py (toWorldCoords st (w_clientX e - rl) (w_clientY e - rt))
                     * scale (handleWheel st e) \<rparr>"
    using assms by (simp add: handleWheel_def Let_def toWorldCoords_def)
  have scr: "toScreenCoords (handleWheel st e)
             (px (toWorldCoords st (w_clientX e - rl) (w_clientY e - rt)))
             (py (toWorldCoords st (w_clientX e - rl) (w_clientY e - rt)))
           = \<lparr> px = w_clientX e - rl, py = w_clientY e - rt \<rparr>"
    by (simp add: toScreenCoords_def off)
  have sc: "scale (handleWheel initial wheel_example) = 1.1"
    by (simp add: handleWheel_def Let_def zf)
       (simp add: wheel_example_def initial_def MIN_SCALE_def MAX_SCALE_def)
  have w0: "toWorldCoords initial 400 300 = \<lparr>px = 400, py = 300\<rparr>"
    by (simp add: toWorldCoords_def initial_def)
  have s0: "toScreenCoords (handleWheel initial wheel_example) 400 300 = \<lparr>px = 400, py = 300\<rparr>"
    by (simp add: toScreenCoords_def handleWheel_def Let_def zf)
       (simp add: wheel_example_def initial_def MIN_SCALE_def MAX_SCALE_def)
  from general under off scr zf sc w0 s0 show ?thesis
    by (simp add: MIN_SCALE_def MAX_SCALE_def)
qed

theorem handleWheel_zoom_anchored_witness:
  "(w_ctrlKey wheel_example \<or> w_metaKey wheel_example)
   \<and> w_rect wheel_example = Some (0, 0) \<and> 0 < scale view_example
   \<and> scale (handleWheel view_example wheel_example) = 2.2
   \<and> offset (handleWheel view_example wheel_example) = \<lparr>px = - 7, py = - 41\<rparr>
   \<and> toScreenCoords (handleWheel view_example wheel_example) 185 155 = \<lparr>px = 400, py = 300\<rparr>"
proof -
  have h1: "w_ctrlKey wheel_example \<or> w_metaKey wheel_example"
    by (simp add: wheel_example_def)
  have h2: "w_rect wheel_example = Some (0, 0)"
    by (simp add: wheel_example_def)
  have h3: "0 < scale view_example"
    by (simp add: view_example_def initial_def)
  have w: "toWorldCoords view_example 400 300 = \<lparr>px = 185, py = 155\<rparr>"
    by (simp add: toWorldCoords_def view_example_def initial_def)
  have s: "min (max MIN_SCALE (scale view_example * 1.1)) MAX_SCALE = 2.2"
    by (simp add: view_example_def initial_def MIN_SCALE_def MAX_SCALE_def)
  have c: "w_clientX wheel_example = 400" "w_clientY wheel_example = 300"
    by (simp_all add: wheel_example_def)
  note t = handleWheel_zoom_anchored [OF h1 h2 h3]
  have sc: "scale (handleWheel view_example wheel_example)
              = min (max MIN_SCALE (scale view_example * zoomFactor wheel_example)) MAX_SCALE"
    using t by (rule conjunct1)
  have zf: "zoomFactor wheel_example = 1.1"
    using t by simp
  have sc2: "scale (handleWheel view_example wheel_example) = 2.2"
    unfolding sc zf by (rule s)
  have off: "offset (handleWheel view_example wheel_example) = \<lparr>px = - 7, py = - 41\<rparr>"
    using t by (simp add: w c sc2)
  have scr: "toScreenCoords (handleWheel view_example wheel_example) 185 155
               = \<lparr>px = 400, py = 300\<rparr>"
    using t by (simp add: w c)
  from h1 h2 h3 sc2 off scr show ?thesis by simp
qed

section \<open>Undo and redo: frame\<close>

text \<open>
  Claim C10 as stated: undo always sets the selected-shape id to null. It fails when the undo
  stack is empty: undo returns at its guard and the selection stays.
\<close>

theorem undo_keeps_selection_counterexample:
  "undoStack selected_example = [] \<and>
   selectedShapeId (undo selected_example) = Some ''a''"
  by (simp add: undo_def selected_example_def initial_def)

text \<open>
  Claim C10, amended. Undo on a non-empty undo stack sets the selected-shape id to null, and
  undo on an empty undo stack changes nothing; redo leaves the selected-shape id unchanged, so
  a redo after an undo does not bring back the selection that existed before the undo; neither
  operation modifies the pan offset, the zoom scale or the clipboard.
\<close>

theorem undo_redo_frame:
  "(undoStack st \<noteq> [] \<longrightarrow> selectedShapeId (undo st) = None)
   \<and> (undoStack st = [] \<longrightarrow> undo st = st)
   \<and> selectedShapeId (redo st) = selectedShapeId st
   \<and> (undoStack st \<noteq> [] \<longrightarrow> selectedShapeId (redo (undo st)) = None)
   \<and> offset (undo st) = offset st \<and> scale (undo st) = scale st
   \<and> clipboard (undo st) = clipboard st
   \<and> offset (redo st) = offset st \<and> scale (redo st) = scale st
   \<and> clipboard (redo st) = clipboard st"
  by (simp add: undo_def redo_def)

theorem undo_redo_frame_witness:
  "undoStack history_example \<noteq> [] \<and> redoStack history_example \<noteq> []
   \<and> selectedShapeId history_example = Some ''a''
   \<and> selectedShapeId (undo history_example) = None
   \<and> selectedShapeId (redo history_example) = Some ''a''
   \<and> selectedShapeId (redo (undo history_example)) = None
   \<and> undoStack selected_example = [] \<and> undo selected_example = selected_example"
proof -
  have u: "undoStack history_example \<noteq> []"
    by (simp add: history_example_def undo_def saveHistory_def slice_last_def initial_def
        MAX_HISTORY_def)
  have r: "redoStack history_example \<noteq> []"
    by (simp add: history_example_def undo_def saveHistory_def slice_last_def initial_def
        MAX_HISTORY_def)
  have s: "selectedShapeId history_example = Some ''a''"
    by (simp add: history_example_def)
  have e: "undoStack selected_example = []"
    by (simp add: selected_example_def initial_def)
  from undo_redo_frame [of history_example] undo_redo_frame [of selected_example] u r s e
  show ?thesis by simp
qed

section \<open>Undo and redo of commits\<close>

text \<open>
  The history manager by itself: when the undo stack has room for them, \<open>n\<close> commits
  followed by \<open>n\<close> undos give back the scene and the undo stack from before the commits,
  and \<open>n\<close> redos then give back the scene of the last commit. Here the scene restored by
  an undo is the scene that was current when \<open>saveHistory\<close> was called.
\<close>

lemma saveHistory_bounded: "length (undoStack (saveHistory st n)) \<le> MAX_HISTORY"
  by (simp add: saveHistory_def slice_last_def MAX_HISTORY_def)

lemma saveHistory_room:
  "length (undoStack st) < MAX_HISTORY \<Longrightarrow>
     undoStack (saveHistory st n) = undoStack st @ [shapes st]"
  by (simp add: saveHistory_def slice_last_def)

lemma commits_stacks:
  assumes "length (undoStack st) + length ns \<le> MAX_HISTORY" and "ns \<noteq> []"
  shows "undoStack (commits st ns) = undoStack st @ butlast (shapes st # ns)
       \<and> shapes (commits st ns) = last ns \<and> redoStack (commits st ns) = []"
  using assms
proof (induction ns arbitrary: st)
  case Nil
  then show ?case by simp
next
  case (Cons n ns)
  from Cons.prems have room: "length (undoStack st) < MAX_HISTORY" by simp
  show ?case
  proof (cases "ns = []")
    case True
    with room show ?thesis by (simp add: saveHistory_room) (simp add: saveHistory_def)
  next
    case False
    from Cons.prems room have
      "length (undoStack (saveHistory st n)) + length ns \<le> MAX_HISTORY"
      by (simp add: saveHistory_room)
    from Cons.IH [OF this False] room False show ?thesis
      by (simp add: saveHistory_room) (simp add: saveHistory_def)
  qed
qed

lemma undos_stacks:
  "undoStack st = us @ xs \<Longrightarrow>
     undoStack ((undo ^^ length xs) st) = us
     \<and> shapes ((undo ^^ length xs) st) = hd (xs @ [shapes st])
     \<and> redoStack ((undo ^^ length xs) st) = redoStack st @ rev (tl (xs @ [shapes st]))"
proof (induction xs arbitrary: st rule: rev_induct)
  case Nil
  then show ?case by simp
next
  case (snoc x xs)
  let ?st1 = "undo st"
  from snoc.prems have u: "undoStack ?st1 = us @ xs" "shapes ?st1 = x"
    "redoStack ?st1 = redoStack st @ [shapes st]"
    by (simp_all add: undo_def butlast_append)
  have "(undo ^^ length (xs @ [x])) st = (undo ^^ length xs) ?st1"
    by (simp add: funpow_swap1)
  with snoc.IH [OF u(1)] u(2,3) show ?case
    by (cases xs) simp_all
qed

lemma redos_stacks:
  "redoStack st = rs @ ys \<Longrightarrow>
     redoStack ((redo ^^ length ys) st) = rs
     \<and> shapes ((redo ^^ length ys) st) = hd (ys @ [shapes st])
     \<and> undoStack ((redo ^^ length ys) st) = undoStack st @ rev (tl (ys @ [shapes st]))"
proof (induction ys arbitrary: st rule: rev_induct)
  case Nil
  then show ?case by simp
next
  case (snoc y ys)
  let ?st1 = "redo st"
  from snoc.prems have u: "redoStack ?st1 = rs @ ys" "shapes ?st1 = y"
    "undoStack ?st1 = undoStack st @ [shapes st]"
    by (simp_all add: redo_def butlast_append)
  have "(redo ^^ length (ys @ [y])) st = (redo ^^ length ys) ?st1"
    by (simp add: funpow_swap1)
  with snoc.IH [OF u(1)] u(2,3) show ?case
    by (cases ys) simp_all
qed

lemma commits_undo_redo:
  assumes "length (undoStack st) + length ns \<le> MAX_HISTORY"
  shows "shapes ((undo ^^ length ns) (commits st ns)) = shapes st
       \<and> undoStack ((undo ^^ length ns) (commits st ns)) = undoStack st
       \<and> shapes ((redo ^^ length ns) ((undo ^^ length ns) (commits st ns)))
           = shapes (commits st ns)"
proof (cases "ns = []")
  case True
  then show ?thesis by simp
next
  case False
  let ?xs = "butlast (shapes st # ns)"
  let ?c = "commits st ns"
  from commits_stacks [OF assms False] have c: "undoStack ?c = undoStack st @ ?xs"
    "shapes ?c = last ns" "redoStack ?c = []" by simp_all
  from False have len: "length ?xs = length ns" by simp
  from False have all: "?xs @ [last ns] = shapes st # ns"
    by (metis append_butlast_last_id last_ConsR list.distinct(1))
  let ?u = "(undo ^^ length ns) ?c"
  from undos_stacks [OF c(1)] len c(2,3) all
  have u: "undoStack ?u = undoStack st" "shapes ?u = shapes st" "redoStack ?u = [] @ rev ns"
    by simp_all
  from redos_stacks [OF u(3)] u(2) False
  have "shapes ((redo ^^ length ns) ?u) = last ns"
    by (simp add: hd_rev)
  with u c(2) show ?thesis by simp
qed

section \<open>Undo and redo from the keyboard\<close>

text \<open>
  The Undo and Redo buttons call the \<open>undo\<close> and \<open>redo\<close> of the current render. The key
  listener calls those of the render in which it was installed; in that render they are
  the same.
\<close>

lemma undo_seen_current: "undo_seen st st = undo st"
  by (simp add: undo_seen_def undo_def)

lemma redo_seen_current: "redo_seen st st = redo st"
  by (simp add: redo_seen_def redo_def)

lemma ctrl_z_undo_seen:
  "\<not> visible (textInput st) \<Longrightarrow> handleKeyDown st seen ctrl_z rid = undo_seen seen st"
  by (simp add: handleKeyDown_def ctrl_z_def)

text \<open>
  Ctrl+Z after the release of a freehand stroke, a drag, a resize or a rotation. A
  mouse-move of such a gesture changes \<open>shapes\<close>, so after it the listener is the one
  installed in the last render before the mouse-up, whose state is \<open>st\<close>; the mouse-up
  calls \<open>saveHistory(shapes)\<close>, which changes the undo stack and no dependency of the
  listener. With an empty undo stack before the release, the stack holds one entry after
  it, and Ctrl+Z returns at once: the scene stays as the gesture left it.
\<close>

lemma ctrl_z_after_release:
  assumes "\<not> visible (textInput st)" and "\<not> isPanning st"
    and "isDragging st \<or> isResizing st \<or> isRotating st
         \<or> isDrawing st \<and> (tool st = Pencil \<or> tool st = Eraser)"
    and "undoStack st = []"
  shows "undoStack (stopDrawing st rid') = [shapes st]
       \<and> handleKeyDown (stopDrawing st rid') st ctrl_z rid = stopDrawing st rid'
       \<and> shapes (stopDrawing st rid') = shapes st"
proof -
  from assms(2,3) have "textInput (stopDrawing st rid') = textInput st"
    and u: "undoStack (stopDrawing st rid') = [shapes st]"
    and s: "shapes (stopDrawing st rid') = shapes st"
    using assms(4) by (auto simp add: stopDrawing_def saveHistory_def slice_last_def)
  with assms(1) have "handleKeyDown (stopDrawing st rid') st ctrl_z rid
      = undo_seen st (stopDrawing st rid')"
    by (simp add: ctrl_z_undo_seen)
  with assms(4) u s show ?thesis by (simp add: undo_seen_def)
qed

section \<open>Undo after a freehand stroke\<close>

text \<open>
  The releases that commit with \<open>saveHistory(shapes)\<close>: after a drag, a resize, a rotation
  or a freehand stroke the scene passed to \<open>saveHistory\<close> is the scene that the moves of
  the gesture have already changed, so the next undo restores that same scene.
\<close>

lemma release_then_undo:
  assumes "\<not> isPanning st"
    and "isDragging st \<or> isResizing st \<or> isRotating st
         \<or> (isDrawing st \<and> (tool st = Pencil \<or> tool st = Eraser))"
  shows "shapes (stopDrawing st rid) = shapes st
       \<and> last (undoStack (stopDrawing st rid)) = shapes st
       \<and> shapes (undo (stopDrawing st rid)) = shapes st"
  using assms
  by (auto simp add: stopDrawing_def saveHistory_def undo_def)

text \<open>
  Claim C1, evaluated on the code. A freehand stroke of five samples is drawn on the empty
  initial scene: mouse-down and four mouse-moves with the pencil, then mouse-up. The
  mouse-down and the moves put the stroke into the scene, and the mouse-up calls
  \<open>saveHistory(shapes)\<close> with the scene that already holds the stroke, so the entry pushed
  on the undo stack is the scene with the stroke. Undo then restores that entry: the scene
  still has one shape, with the five points, where the claim expects none.
\<close>

theorem freehand_stroke_undo_keeps_stroke:
  "scene_points (Inr initial) = Some []
   \<and> scene_points stroke_example = Some [stroke_points]
   \<and> length stroke_points = 5
   \<and> scene_points (after undo stroke_example) = Some [stroke_points]
   \<and> map_option length (scene_points (after undo stroke_example)) = Some 1"
  by (simp add: scene_points_def after_def stroke_example_def gesture_def stroke_moves_def
        startDrawing_def draw_def grab_handle_def begin_drawing_def hover_update_def
        edit_step_def stopDrawing_def initial_def mouse_at_def Let_def toWorldCoords_def
        snapped_def applySnap_def new_shape_def append_sample_def saveHistory_def
        slice_last_def undo_def MAX_HISTORY_def stroke_points_def)

section \<open>Duplicate and paste\<close>

text \<open>
  Claim C9 as stated: the copy has an identifier distinct from that of the source. The
  identifier of the copy is the string that the random generator returns at the call, and
  no handler compares it with the identifiers in use: when the generator returns the
  string it returned for the source, source and copy have the same identifier.
\<close>

theorem duplicate_same_id_counterexample:
  "map shape_id (shapes collision_example) = [''k3j9x0a2b'']
   \<and> selectedShapeId collision_example = Some ''k3j9x0a2b''
   \<and> map shape_id (shapes (handleDuplicate collision_example ''k3j9x0a2b''))
       = [''k3j9x0a2b'', ''k3j9x0a2b'']"
  by (simp add: collision_example_def initial_def new_shape_def handleDuplicate_def
        saveHistory_def clone_of_def)

text \<open>
  Claim C9, amended. Duplicating the selected shape, or pasting the clipboard, appends one
  copy to the scene and leaves the shapes before it, the source among them, and the
  clipboard as they were. The identifier of the copy is the newly generated random
  identifier, which is distinct from the identifier of the source whenever the generator
  does not return that one again; the points of the copy are the points of the source each
  shifted by (+20, +20); its \<open>isLocked\<close> is \<open>false\<close> whatever the source had; its other
  fields are those of the source.
\<close>

theorem duplicate_and_paste_copy:
  "(truthy_id (selectedShapeId st) \<and> find_by_id (selectedShapeId st) (shapes st) = Some src
      \<longrightarrow> shapes (handleDuplicate st rid) = shapes st @ [clone_of rid src]
          \<and> clipboard (handleDuplicate st rid) = clipboard st)
   \<and> (clipboard st = Some src
      \<longrightarrow> shapes (handlePaste st rid) = shapes st @ [clone_of rid src]
          \<and> clipboard (handlePaste st rid) = Some src)
   \<and> shape_id (clone_of rid src) = rid
   \<and> (rid \<noteq> shape_id src \<longrightarrow> shape_id (clone_of rid src) \<noteq> shape_id src)
   \<and> points (clone_of rid src) = map (\<lambda>p. \<lparr>px = px p + 20, py = py p + 20\<rparr>) (points src)
   \<and> isLocked (clone_of rid src) = Some False
   \<and> shape_tool (clone_of rid src) = shape_tool src
   \<and> shape_color (clone_of rid src) = shape_color src
   \<and> shape_size (clone_of rid src) = shape_size src
   \<and> shape_isFilled (clone_of rid src) = shape_isFilled src
   \<and> rotation (clone_of rid src) = rotation src
   \<and> shape_text (clone_of rid src) = shape_text src"
  by (simp add: handleDuplicate_def handlePaste_def saveHistory_def clone_of_def translate_def)

theorem duplicate_and_paste_copy_witness:
  "''r2'' \<noteq> shape_id locked_rect
   \<and> truthy_id (selectedShapeId locked_example)
   \<and> find_by_id (selectedShapeId locked_example) (shapes locked_example) = Some locked_rect
   \<and> clipboard locked_example = Some locked_rect
   \<and> isLocked locked_rect = Some True
   \<and> shapes (handleDuplicate locked_example ''r2'') = [locked_rect, clone_of ''r2'' locked_rect]
   \<and> shapes (handlePaste locked_example ''r2'') = [locked_rect, clone_of ''r2'' locked_rect]
   \<and> shape_id (clone_of ''r2'' locked_rect) \<noteq> shape_id locked_rect
   \<and> isLocked (clone_of ''r2'' locked_rect) = Some False
   \<and> points (clone_of ''r2'' locked_rect) = [\<lparr>px = 20, py = 20\<rparr>, \<lparr>px = 120, py = 70\<rparr>]"
proof -
  have f: "''r2'' \<noteq> shape_id locked_rect"
    by (simp add: locked_rect_def new_shape_def)
  have s: "truthy_id (selectedShapeId locked_example)"
    "find_by_id (selectedShapeId locked_example) (shapes locked_example) = Some locked_rect"
    "clipboard locked_example = Some locked_rect"
    "shapes locked_example = [locked_rect]"
    by (simp_all add: locked_example_def locked_rect_def new_shape_def)
  have p: "isLocked locked_rect = Some True"
     "points locked_rect = [\<lparr>px = 0, py = 0\<rparr>, \<lparr>px = 100, py = 50\<rparr>]"
    by (simp_all add: locked_rect_def new_shape_def)
  from duplicate_and_paste_copy [of locked_example locked_rect "''r2''"] f s p show ?thesis
    by simp
qed

section \<open>Arrow-key nudge\<close>

text \<open>
  Claim C7 as stated: an arrow-key press moves the selected unlocked shape by one world unit.
  At scale 2 the press of the right arrow moves it by one half.
\<close>

theorem nudge_one_world_unit_counterexample:
  "truthy_id (selectedShapeId zoomed_example)
   \<and> map isLocked (shapes zoomed_example) = [None]
   \<and> map points (shapes zoomed_example) = [[\<lparr>px = 0, py = 0\<rparr>, \<lparr>px = 100, py = 50\<rparr>]]
   \<and> map points (shapes (handleKeyDown zoomed_example zoomed_example (arrow_key ''ArrowRight'' False) ''''))
       = [[\<lparr>px = 1 / 2, py = 0\<rparr>, \<lparr>px = 100 + 1 / 2, py = 50\<rparr>]]"
  by (simp add: zoomed_example_def locked_rect_def new_shape_def initial_def handleKeyDown_def
        arrow_key_def nudgeSelected_def move_selected_def translate_def Let_def)

text \<open>
  Claim C7, amended. For a selected unlocked shape (and a positive scale), each arrow-key
  press translates every point of the shape by \<open>1 / scale\<close> world units along the arrow's
  axis, that is by one screen pixel (\<open>10 / scale\<close> world units, ten pixels, when Shift is
  held), and the key press itself pushes no history entry: the undo and redo stacks stay as
  they are at every press and repeat.
\<close>

theorem nudge_one_pixel:
  assumes "\<not> visible (textInput st)"
    and "truthy_id (selectedShapeId st)"
    and "find_by_id (selectedShapeId st) (shapes st) = Some s"
    and "\<not> truthy_flag (isLocked s)"
    and "k_key e \<in> set arrow_keys"
    and "0 < scale st"
  shows "shapes (handleKeyDown st seen e rid)
           = map (\<lambda>t. if Some (shape_id t) = selectedShapeId st
                       then t\<lparr> points :=
                              map (\<lambda>p. \<lparr> px = px p + fst (arrow_dir (k_key e))
                                                      * ((if k_shiftKey e then 10 else 1) / scale st),
                                          py = py p + snd (arrow_dir (k_key e))
                                                      * ((if k_shiftKey e then 10 else 1) / scale st) \<rparr>)
                                  (points t) \<rparr>
                       else t) (shapes st)
       \<and> toScreenCoords st
            (wx + fst (arrow_dir (k_key e)) * ((if k_shiftKey e then 10 else 1) / scale st))
            (wy + snd (arrow_dir (k_key e)) * ((if k_shiftKey e then 10 else 1) / scale st))
           = \<lparr> px = px (toScreenCoords st wx wy)
                      + fst (arrow_dir (k_key e)) * (if k_shiftKey e then 10 else 1),
               py = py (toScreenCoords st wx wy)
                      + snd (arrow_dir (k_key e)) * (if k_shiftKey e then 10 else 1) \<rparr>
       \<and> undoStack (handleKeyDown st seen e rid) = undoStack st
       \<and> redoStack (handleKeyDown st seen e rid) = redoStack st"
proof -
  have pixel: "toScreenCoords st (wx + a * (c / scale st)) (wy + b * (c / scale st))
                 = \<lparr> px = px (toScreenCoords st wx wy) + a * c,
                     py = py (toScreenCoords st wx wy) + b * c \<rparr>" for a b c
    using assms(6) by (simp add: toScreenCoords_def field_simps)
  from assms(5) consider "k_key e = ''ArrowUp''" | "k_key e = ''ArrowDown''"
    | "k_key e = ''ArrowLeft''" | "k_key e = ''ArrowRight''"
    by (auto simp add: arrow_keys_def)
  then have "shapes (handleKeyDown st seen e rid)
           = map (\<lambda>t. if Some (shape_id t) = selectedShapeId st
                       then t\<lparr> points :=
                              map (\<lambda>p. \<lparr> px = px p + fst (arrow_dir (k_key e))
                                                      * ((if k_shiftKey e then 10 else 1) / scale st),
                                          py = py p + snd (arrow_dir (k_key e))
                                                      * ((if k_shiftKey e then 10 else 1) / scale st) \<rparr>)
                                  (points t) \<rparr>
                       else t) (shapes st)
       \<and> undoStack (handleKeyDown st seen e rid) = undoStack st
       \<and> redoStack (handleKeyDown st seen e rid) = redoStack st"
  proof cases
    case 1
    with assms(1-4) show ?thesis
      by (simp add: handleKeyDown_def arrow_dir_def nudgeSelected_def
            move_selected_def translate_def Let_def)
  next
    case 2
    with assms(1-4) show ?thesis
      by (simp add: handleKeyDown_def arrow_dir_def nudgeSelected_def
            move_selected_def translate_def Let_def)
  next
    case 3
    with assms(1-4) show ?thesis
      by (simp add: handleKeyDown_def arrow_dir_def nudgeSelected_def
            move_selected_def translate_def Let_def)
  next
    case 4
    with assms(1-4) show ?thesis
      by (simp add: handleKeyDown_def arrow_dir_def nudgeSelected_def
            move_selected_def translate_def Let_def)
  qed
  with pixel show ?thesis by blast
qed

theorem nudge_one_pixel_witness:
  "\<not> visible (textInput zoomed_example)
   \<and> truthy_id (selectedShapeId zoomed_example)
   \<and> find_by_id (selectedShapeId zoomed_example) (shapes zoomed_example)
       = Some (locked_rect\<lparr> isLocked := None \<rparr>)
   \<and> \<not> truthy_flag (isLocked (locked_rect\<lparr> isLocked := None \<rparr>))
   \<and> k_key (arrow_key ''ArrowUp'' True) \<in> set arrow_keys
   \<and> 0 < scale zoomed_example
   \<and> map points (shapes (handleKeyDown zoomed_example zoomed_example (arrow_key ''ArrowUp'' True) []))
       = [[\<lparr>px = 0, py = - 5\<rparr>, \<lparr>px = 100, py = 45\<rparr>]]
   \<and> undoStack (handleKeyDown zoomed_example zoomed_example (arrow_key ''ArrowUp'' True) []) = []"
proof -
  have h1: "\<not> visible (textInput zoomed_example)"
    and h2: "truthy_id (selectedShapeId zoomed_example)"
    and h3: "find_by_id (selectedShapeId zoomed_example) (shapes zoomed_example)
               = Some (locked_rect\<lparr> isLocked := None \<rparr>)"
    and h4: "\<not> truthy_flag (isLocked (locked_rect\<lparr> isLocked := None \<rparr>))"
    and h6: "0 < scale zoomed_example"
    by (simp_all add: zoomed_example_def initial_def locked_rect_def new_shape_def)
  have h5: "k_key (arrow_key ''ArrowUp'' True) \<in> set arrow_keys"
    by (simp add: arrow_key_def arrow_keys_def)
  have v: "shapes zoomed_example = [locked_rect\<lparr> isLocked := None \<rparr>]"
    "selectedShapeId zoomed_example = Some ''r1''" "scale zoomed_example = 2"
    "undoStack zoomed_example = []"
    "shape_id locked_rect = ''r1''"
    "points locked_rect = [\<lparr>px = 0, py = 0\<rparr>, \<lparr>px = 100, py = 50\<rparr>]"
    by (simp_all add: zoomed_example_def initial_def locked_rect_def new_shape_def)
  have k: "k_key (arrow_key ''ArrowUp'' True) = ''ArrowUp''" "k_shiftKey (arrow_key ''ArrowUp'' True)"
    by (simp_all add: arrow_key_def)
  from nudge_one_pixel [OF h1 h2 h3 h4 h5 h6, of zoomed_example "[]"] h1 h2 h3 h4 h5 h6
  show ?thesis by (simp add: v k arrow_dir_def)
qed

section \<open>Hit test of a rotated shape\<close>

lemma near_iff:
  "0 < r \<Longrightarrow> near p q r \<longleftrightarrow> (px p - px q)\<^sup>2 + (py p - py q)\<^sup>2 < r\<^sup>2"
proof -
  assume r: "0 < r"
  have "sqrt ((px p - px q)\<^sup>2 + (py p - py q)\<^sup>2) < r
          \<longleftrightarrow> sqrt ((px p - px q)\<^sup>2 + (py p - py q)\<^sup>2) < sqrt (r\<^sup>2)"
    using r by simp
  also have "\<dots> \<longleftrightarrow> (px p - px q)\<^sup>2 + (py p - py q)\<^sup>2 < r\<^sup>2"
    by (rule real_sqrt_less_iff)
  finally show ?thesis by (simp add: near_def)
qed

lemma bbox_center_first_two:
  assumes "first_two pts = Inr (p1, p2)" and "length pts \<le> 2"
  shows "bbox_center pts = Some \<lparr> px = (px p1 + px p2) / 2, py = (py p1 + py p2) / 2 \<rparr>"
proof (cases pts)
  case Nil
  with assms show ?thesis by simp
next
  case (Cons a as)
  show ?thesis
  proof (cases as)
    case Nil
    with Cons assms show ?thesis by (auto simp add: bbox_center_def)
  next
    case (Cons b bs)
    with \<open>pts = a # as\<close> assms have "pts = [p1, p2]" by simp
    then show ?thesis by (simp add: bbox_center_def min_def max_def)
  qed
qed

text \<open>
  Claim C6 as stated: the query point is rotated back about the center of the bounding box.
  The code rotates about the midpoint of the first two points, which is another point for a
  freehand stroke of three samples: the stroke (0,0), (10,0), (100,0) turned by \<open>pi\<close> is
  hit at (-90, 0) by \<open>checkHit\<close> and not by the rule of the claim.
\<close>

theorem checkHit_bbox_center_counterexample:
  "rotation turned_stroke = Some pi
   \<and> bbox_center (points turned_stroke) = Some \<lparr>px = 50, py = 0\<rparr>
   \<and> checkHit 1 \<lparr>px = - 90, py = 0\<rparr> turned_stroke = Inr True
   \<and> spec_checkHit 1 \<lparr>px = - 90, py = 0\<rparr> turned_stroke = Inr False"
  by (simp add: turned_stroke_def new_shape_def bbox_center_def checkHit_def spec_checkHit_def
        rot_angle_def rotate_by_def Let_def near_iff)

text \<open>
  Claim C6, amended. For every shape with a nonzero rotation, \<open>checkHit\<close> returns the result
  of the test of the unrotated shape at the query point rotated by \<open>- rotation\<close> about the
  midpoint of the first two points of the shape (the first point, when there is one point).
  That midpoint is the center of the bounding box for every shape of one or two points, so
  for the two-point tools and for text the rule of the claim holds. The rectangle
  (0,0)-(100,50) turned by \<open>pi / 2\<close> is no longer hit at (0, 25), the midpoint of its left
  edge before the turn, and it is hit at (50, -25), where the turn takes that midpoint.
\<close>

theorem checkHit_rotated:
  assumes "rotation s = Some r" and "r \<noteq> 0" and "first_two (points s) = Inr (p1, p2)"
  shows "checkHit sc pos s
           = checkHit sc (rotate_by (- r) ((px p1 + px p2) / 2) ((py p1 + py p2) / 2) pos)
               (s\<lparr> rotation := None \<rparr>)
       \<and> (length (points s) \<le> 2 \<longrightarrow> checkHit sc pos s = spec_checkHit sc pos s)
       \<and> checkHit 1 \<lparr>px = 0, py = 25\<rparr> (turned_rect\<lparr> rotation := None \<rparr>) = Inr True
       \<and> checkHit 1 \<lparr>px = 0, py = 25\<rparr> turned_rect = Inr False
       \<and> checkHit 1 \<lparr>px = 50, py = - 25\<rparr> turned_rect = Inr True"
proof -
  have a: "rot_angle s = Some r" "rot_angle (s\<lparr> rotation := None \<rparr>) = None"
    using assms(1,2) by (simp_all add: rot_angle_def)
  have main: "checkHit sc pos s
           = checkHit sc (rotate_by (- r) ((px p1 + px p2) / 2) ((py p1 + py p2) / 2) pos)
               (s\<lparr> rotation := None \<rparr>)"
    using assms(3) by (simp add: checkHit_def a Let_def)
  have spec: "checkHit sc pos s = spec_checkHit sc pos s" if "length (points s) \<le> 2"
    using bbox_center_first_two [OF assms(3) that] main
    by (simp add: spec_checkHit_def a)
  have e1: "checkHit 1 \<lparr>px = 0, py = 25\<rparr> (turned_rect\<lparr> rotation := None \<rparr>) = Inr True"
    by (simp add: turned_rect_def new_shape_def checkHit_def rot_angle_def Let_def)
  have e2: "checkHit 1 \<lparr>px = 0, py = 25\<rparr> turned_rect = Inr False"
    by (simp add: turned_rect_def new_shape_def checkHit_def rot_angle_def rotate_by_def Let_def)
  have e3: "checkHit 1 \<lparr>px = 50, py = - 25\<rparr> turned_rect = Inr True"
    by (simp add: turned_rect_def new_shape_def checkHit_def rot_angle_def rotate_by_def Let_def)
  from main spec e1 e2 e3 show ?thesis by simp
qed

theorem checkHit_rotated_witness:
  "rotation turned_stroke = Some pi \<and> pi \<noteq> 0
   \<and> first_two (points turned_stroke) = Inr (\<lparr>px = 0, py = 0\<rparr>, \<lparr>px = 10, py = 0\<rparr>)
   \<and> checkHit 1 \<lparr>px = - 90, py = 0\<rparr> turned_stroke
       = checkHit 1 \<lparr>px = 100, py = 0\<rparr> (turned_stroke\<lparr> rotation := None \<rparr>)
   \<and> rotation turned_rect = Some (pi / 2) \<and> pi / 2 \<noteq> 0
   \<and> first_two (points turned_rect) = Inr (\<lparr>px = 0, py = 0\<rparr>, \<lparr>px = 100, py = 50\<rparr>)
   \<and> length (points turned_rect) \<le> 2
   \<and> spec_checkHit 1 \<lparr>px = 0, py = 25\<rparr> turned_rect = Inr False"
proof -
  have h1: "rotation turned_stroke = Some pi"
    and h3: "first_two (points turned_stroke) = Inr (\<lparr>px = 0, py = 0\<rparr>, \<lparr>px = 10, py = 0\<rparr>)"
    by (simp_all add: turned_stroke_def new_shape_def)
  have h2: "pi \<noteq> 0" by simp
  have g1: "rotation turned_rect = Some (pi / 2)"
    and g3: "first_two (points turned_rect) = Inr (\<lparr>px = 0, py = 0\<rparr>, \<lparr>px = 100, py = 50\<rparr>)"
    and g4: "length (points turned_rect) \<le> 2"
    by (simp_all add: turned_rect_def new_shape_def)
  have g2: "pi / 2 \<noteq> 0" by simp
  have t: "rotate_by (- pi) 5 0 \<lparr>px = - 90, py = 0\<rparr> = \<lparr>px = 100, py = 0\<rparr>"
    by (simp add: rotate_by_def)
  note stroke = checkHit_rotated [OF h1 h2 h3, of 1 "\<lparr>px = - 90, py = 0\<rparr>"]
  note rect = checkHit_rotated [OF g1 g2 g3, of 1 "\<lparr>px = 0, py = 25\<rparr>"]
  from stroke have c1: "checkHit 1 \<lparr>px = - 90, py = 0\<rparr> turned_stroke
       = checkHit 1 \<lparr>px = 100, py = 0\<rparr> (turned_stroke\<lparr> rotation := None \<rparr>)"
    by (simp add: t h3)
  from rect g4 have "checkHit 1 \<lparr>px = 0, py = 25\<rparr> turned_rect
       = spec_checkHit 1 \<lparr>px = 0, py = 25\<rparr> turned_rect"
    by blast
  moreover from rect have "checkHit 1 \<lparr>px = 0, py = 25\<rparr> turned_rect = Inr False"
    by blast
  ultimately have c2: "spec_checkHit 1 \<lparr>px = 0, py = 25\<rparr> turned_rect = Inr False"
    by simp
  from h1 h2 h3 g1 g2 g3 g4 c1 c2 show ?thesis by simp
qed

section \<open>History entries and the in-place resize\<close>

text \<open>
  On the live shape the store model and the model on coordinates agree: when the point
  objects of a shape are different objects, the coordinates read after the writes are those
  that \<open>resize_points\<close> computes.
\<close>

lemma resize_in_place_live:
  assumes "distinct addrs"
  shows "map (resize_in_place hnd dx dy addrs h) addrs = resize_points hnd dx dy (map h addrs)"
proof (cases addrs)
  case Nil
  then show ?thesis by (simp add: resize_in_place_def resize_points_def)
next
  case (Cons a1 as)
  show ?thesis
  proof (cases as)
    case Nil
    with Cons show ?thesis by (simp add: resize_in_place_def resize_points_def)
  next
    case (Cons a2 bs)
    with \<open>addrs = a1 # as\<close> assms
    have d: "a1 \<noteq> a2" "a1 \<notin> set bs" "a2 \<notin> set bs" and eq: "addrs = a1 # a2 # bs"
      by auto
    show ?thesis
      unfolding eq using d
      by (cases hnd)
         (simp_all add: resize_in_place_def resize_points_def add_x_ref_def add_y_ref_def
            add_x_def add_y_def Let_def)
  qed
qed

text \<open>
  Claim C2, evaluated on the code. The undo stack of \<open>store_grabbed\<close> ends with the entry
  pushed at the release of the click; it shows the rectangle (0,0)-(100,50). One mouse-move
  of the resize gesture to (120, 60) leaves the undo stack as it is, a list of the same
  shapes, and writes to the point object of the far corner, which the entry shares with the
  scene: the entry now shows the rectangle (0,0)-(120,60).
\<close>

theorem resize_changes_history_entry:
  "map (map points \<circ> map (contents (heap store_grabbed))) (r_undoStack store_grabbed)
     = [[], [[\<lparr>px = 0, py = 0\<rparr>, \<lparr>px = 100, py = 50\<rparr>]]]
   \<and> r_undoStack (draw_resizing_ref store_grabbed \<lparr>px = 120, py = 60\<rparr>)
       = r_undoStack store_grabbed
   \<and> map (map points \<circ> map (contents (heap (draw_resizing_ref store_grabbed \<lparr>px = 120, py = 60\<rparr>))))
         (r_undoStack (draw_resizing_ref store_grabbed \<lparr>px = 120, py = 60\<rparr>))
     = [[], [[\<lparr>px = 0, py = 0\<rparr>, \<lparr>px = 120, py = 60\<rparr>]]]"
  by (simp add: store_grabbed_def store_drawn_def stored_rect_def saveHistory_ref_def
        draw_resizing_ref_def resize_in_place_def add_x_ref_def add_y_ref_def contents_def
        slice_last_def MAX_HISTORY_def Let_def)

text \<open>
  At this input the guard of the updater lets the rectangle through (it is the selected
  shape and has two points), and the entry read before and after the move differs.
\<close>

theorem resize_changes_history_entry_witness:
  "Some (shape_id stored_rect) = r_selectedShapeId store_grabbed
   \<and> length (points stored_rect) = 2
   \<and> r_activeResizeHandle store_grabbed = Some SE
   \<and> last (r_undoStack store_grabbed) = r_shapes store_grabbed
   \<and> map (map points \<circ> map (contents (heap (draw_resizing_ref store_grabbed \<lparr>px = 120, py = 60\<rparr>))))
         (r_undoStack (draw_resizing_ref store_grabbed \<lparr>px = 120, py = 60\<rparr>))
     \<noteq> map (map points \<circ> map (contents (heap store_grabbed))) (r_undoStack store_grabbed)"
proof -
  have g: "Some (shape_id stored_rect) = r_selectedShapeId store_grabbed"
    "length (points stored_rect) = 2"
    "r_activeResizeHandle store_grabbed = Some SE"
    "last (r_undoStack store_grabbed) = r_shapes store_grabbed"
    by (simp_all add: store_grabbed_def store_drawn_def stored_rect_def saveHistory_ref_def)
  let ?before = "map (map points \<circ> map (contents (heap store_grabbed))) (r_undoStack store_grabbed)"
  let ?after = "map (map points \<circ> map (contents (heap (draw_resizing_ref store_grabbed \<lparr>px = 120, py = 60\<rparr>))))
                  (r_undoStack (draw_resizing_ref store_grabbed \<lparr>px = 120, py = 60\<rparr>))"
  from resize_changes_history_entry
  have b: "?before = [[], [[\<lparr>px = 0, py = 0\<rparr>, \<lparr>px = 100, py = 50\<rparr>]]]"
    and a: "?after = [[], [[\<lparr>px = 0, py = 0\<rparr>, \<lparr>px = 120, py = 60\<rparr>]]]"
    by blast+
  have "?after \<noteq> ?before"
    unfolding a b by simp
  with g show ?thesis by simp
qed

section \<open>Locked shapes\<close>

















lemma untouched_hovered [simp]:
  "untouched s (st\<lparr> hoveredShapeId := h \<rparr>) = untouched s st"
  by (simp add: untouched_def)

lemma with_points_hovered [simp]:
  "with_points (st\<lparr> hoveredShapeId := h \<rparr>) = with_points st"
  by (simp add: with_points_def)
























section \<open>Grid snap\<close>

lemma on_grid_multiple: "g \<noteq> 0 \<Longrightarrow> on_grid g (real_of_int k * g)"
  by (simp add: on_grid_def)

lemma on_grid_iff: "g \<noteq> 0 \<Longrightarrow> on_grid g v \<longleftrightarrow> (\<exists>k::int. v = real_of_int k * g)"
proof
  assume "on_grid g v"
  then have "v = real_of_int \<lfloor>v / g\<rfloor> * g" by (simp add: on_grid_def)
  then show "\<exists>k::int. v = real_of_int k * g" ..
next
  assume "g \<noteq> 0" and "\<exists>k::int. v = real_of_int k * g"
  then show "on_grid g v" using on_grid_multiple by blast
qed

lemma on_grid_add:
  assumes "g \<noteq> 0" "on_grid g a" "on_grid g b"
  shows "on_grid g (a + b)"
proof -
  from assms obtain k l :: int where "a = real_of_int k * g" "b = real_of_int l * g"
    by (auto simp add: on_grid_iff)
  then have "a + b = real_of_int (k + l) * g" by (simp add: algebra_simps)
  with assms(1) show ?thesis using on_grid_multiple by metis
qed

lemma on_grid_diff:
  assumes "g \<noteq> 0" "on_grid g a" "on_grid g b"
  shows "on_grid g (a - b)"
proof -
  from assms obtain k l :: int where "a = real_of_int k * g" "b = real_of_int l * g"
    by (auto simp add: on_grid_iff)
  then have "a - b = real_of_int (k - l) * g" by (simp add: algebra_simps)
  with assms(1) show ?thesis using on_grid_multiple by metis
qed

lemma on_grid_zero: "on_grid g 0"
  by (simp add: on_grid_def)

lemma applySnap_on_grid:
  "snapToGrid st \<Longrightarrow> gridSpacing st \<noteq> 0 \<Longrightarrow> on_grid (gridSpacing st) (applySnap st v)"
  by (simp add: applySnap_def js_round_def on_grid_multiple)

lemma js_round_near: "\<bar>js_round v - v\<bar> \<le> 1 / 2"
proof -
  have "real_of_int \<lfloor>v + 1 / 2\<rfloor> \<le> v + 1 / 2" by (rule of_int_floor_le)
  moreover have "v + 1 / 2 < real_of_int \<lfloor>v + 1 / 2\<rfloor> + 1" by linarith
  ultimately show ?thesis unfolding js_round_def by linarith
qed

lemma applySnap_nearest:
  assumes "snapToGrid st" and "0 < gridSpacing st"
  shows "\<bar>applySnap st v - v\<bar> \<le> gridSpacing st / 2"
proof -
  let ?g = "gridSpacing st"
  have "applySnap st v - v = (js_round (v / ?g) - v / ?g) * ?g"
    using assms by (simp add: applySnap_def algebra_simps)
  then have "\<bar>applySnap st v - v\<bar> = \<bar>js_round (v / ?g) - v / ?g\<bar> * ?g"
    using assms(2) by (simp add: abs_mult)
  also have "\<dots> \<le> (1 / 2) * ?g"
    using js_round_near [of "v / ?g"] assms(2) by (intro mult_right_mono) simp_all
  finally show ?thesis by simp
qed

lemma snapped_on_grid:
  "snapToGrid st \<Longrightarrow> gridSpacing st \<noteq> 0 \<Longrightarrow> point_on_grid (gridSpacing st) (snapped st p)"
  by (simp add: point_on_grid_def snapped_def applySnap_on_grid)


lemma samples_same_view: "same_view st st' \<Longrightarrow> samples st' es = samples st es"
proof -
  assume v: "same_view st st'"
  then have "pointer st' = pointer st"
    by (intro ext) (simp add: pointer_def toWorldCoords_def same_view_def split: option.splits)
  moreover from v have "snapped st' = snapped st"
    by (intro ext) (simp add: snapped_def applySnap_def same_view_def)
  ultimately show ?thesis by (simp add: samples_def)
qed

lemma samples_Cons:
  "samples st (e # es) = (case pointer st e of None \<Rightarrow> samples st es
                           | Some p \<Rightarrow> snapped st p # samples st es)"
  by (simp add: samples_def List.map_filter_simps split: option.splits)

lemma draw_unmounted: "\<not> isPanning st \<Longrightarrow> pointer st e = None \<Longrightarrow> draw st e = Inr st"
  by (auto simp add: draw_def pointer_def split: option.splits)

lemma draw_mounted:
  "\<not> isPanning st \<Longrightarrow> pointer st e = Some p \<Longrightarrow>
   draw st e = (case hover_update st p of Inl err \<Rightarrow> Inl err
                | Inr hovered \<Rightarrow> edit_step hovered p (snapped st p))"
  by (auto simp add: draw_def pointer_def Let_def split: option.splits)

lemma draw_freehand_exact:
  assumes "drawing_mode st" and "tool st = Pencil \<or> tool st = Eraser"
    and "shapes st = ss @ [k]" and "shape_tool k = Pencil \<or> shape_tool k = Eraser"
    and "pointer st e = Some p"
  shows "draw st e = Inr (st\<lparr> currentPos := snapped st p,
                              shapes := ss @ [k\<lparr> points := points k @ [snapped st p] \<rparr>] \<rparr>)"
proof -
  from assms(1) have np: "\<not> isPanning st" by (simp add: drawing_mode_def)
  from assms(2) have h: "hover_update st p = Inr st" by (auto simp add: hover_update_def)
  from assms(1-4) have "edit_step st p (snapped st p)
      = Inr (st\<lparr> currentPos := snapped st p,
                 shapes := ss @ [k\<lparr> points := points k @ [snapped st p] \<rparr>] \<rparr>)"
    by (auto simp add: edit_step_def drawing_mode_def append_sample_def Let_def)
  with draw_mounted [OF np assms(5)] h show ?thesis by simp
qed

lemma draws_freehand_exact:
  assumes "drawing_mode st" and "tool st = Pencil \<or> tool st = Eraser"
    and "shapes st = ss @ [k]" and "shape_tool k = Pencil \<or> shape_tool k = Eraser"
  shows "\<exists>c. draws st es =
           Inr (st\<lparr> currentPos := c, shapes := ss @ [k\<lparr> points := points k @ samples st es \<rparr>] \<rparr>)"
  using assms
proof (induction es arbitrary: st k)
  case Nil
  have "st = st\<lparr> currentPos := currentPos st, shapes := ss @ [k\<lparr> points := points k \<rparr>] \<rparr>"
    using Nil(3) by simp
  then have "draws st [] = Inr (st\<lparr> currentPos := currentPos st,
                                   shapes := ss @ [k\<lparr> points := points k @ samples st [] \<rparr>] \<rparr>)"
    by (simp add: samples_def List.map_filter_simps)
  then show ?case by blast
next
  case (Cons e es)
  show ?case
  proof (cases "pointer st e")
    case None
    with Cons.prems(1) have "draw st e = Inr st"
      by (simp add: draw_unmounted drawing_mode_def)
    with Cons.IH [OF Cons.prems] None show ?thesis by (simp add: samples_Cons)
  next
    case (Some p)
    let ?k = "k\<lparr> points := points k @ [snapped st p] \<rparr>"
    let ?st = "st\<lparr> currentPos := snapped st p, shapes := ss @ [?k] \<rparr>"
    have d: "draw st e = Inr ?st" using Cons.prems Some by (rule draw_freehand_exact)
    have v: "samples ?st es = samples st es"
      by (rule samples_same_view) (simp add: same_view_def)
    have "drawing_mode ?st" "tool ?st = Pencil \<or> tool ?st = Eraser" "shapes ?st = ss @ [?k]"
      "shape_tool ?k = Pencil \<or> shape_tool ?k = Eraser"
      using Cons.prems by (simp_all add: drawing_mode_def)
    from Cons.IH [OF this] obtain c where
      "draws ?st es = Inr (?st\<lparr> currentPos := c,
                                shapes := ss @ [?k\<lparr> points := points ?k @ samples ?st es \<rparr>] \<rparr>)"
      by blast
    with d Some v have "draws st (e # es) =
        Inr (st\<lparr> currentPos := c, shapes := ss @ [k\<lparr> points := points k @ samples st (e # es) \<rparr>] \<rparr>)"
      by (simp add: samples_Cons)
    then show ?thesis by blast
  qed
qed

lemma startDrawing_begin_exact:
  assumes "primary_down st e" and "pointer st e = Some p" and "tool st \<noteq> Move"
    and "tool st \<noteq> Text"
  shows "startDrawing st e rid =
           Inr (begin_drawing (st\<lparr> startPos := snapped st p, currentPos := snapped st p \<rparr>)
                  (snapped st p) rid)"
  using assms
  by (auto simp add: startDrawing_def grab_handle_def primary_down_def pointer_def Let_def
        split: option.splits)

lemma gesture_freehand_exact:
  assumes "idle st" and "primary_down st down" and "pointer st down = Some p"
    and "tool st = Pencil \<or> tool st = Eraser"
  shows "scene (gesture st down rid moves rid')
           = Some (shapes st @ [new_shape rid (tool st) (snapped st p # samples st moves)
                                  (color st) (brushSize st / scale st) False None])"
proof -
  from assms(4) have t: "tool st \<noteq> Move" "tool st \<noteq> Text" by auto
  let ?k = "new_shape rid (tool st) [snapped st p] (color st) (brushSize st / scale st) False None"
  let ?st1 = "st\<lparr> startPos := snapped st p, currentPos := snapped st p,
                  isDrawing := True, selectedShapeId := None, shapes := shapes st @ [?k] \<rparr>"
  have sd: "startDrawing st down rid = Inr ?st1"
    using startDrawing_begin_exact [OF assms(2,3) t, of rid] assms(4)
    by (auto simp add: begin_drawing_def)
  have m: "drawing_mode ?st1" "tool ?st1 = Pencil \<or> tool ?st1 = Eraser"
    "shapes ?st1 = shapes st @ [?k]" "shape_tool ?k = Pencil \<or> shape_tool ?k = Eraser"
    using assms(1,4) by (simp_all add: drawing_mode_def idle_def new_shape_def)
  have v: "samples ?st1 moves = samples st moves"
    by (rule samples_same_view) (simp add: same_view_def)
  from draws_freehand_exact [OF m, of moves] v obtain c where
    ds: "draws ?st1 moves =
           Inr (?st1\<lparr> currentPos := c,
                      shapes := shapes st @ [?k\<lparr> points := points ?k @ samples st moves \<rparr>] \<rparr>)"
    by auto
  let ?st2 = "?st1\<lparr> currentPos := c,
                    shapes := shapes st @ [?k\<lparr> points := points ?k @ samples st moves \<rparr>] \<rparr>"
  from assms(1,4) have "shapes (stopDrawing ?st2 rid') = shapes ?st2"
    by (auto simp add: stopDrawing_def idle_def saveHistory_def)
  moreover have "gesture st down rid moves rid' = Inr (stopDrawing ?st2 rid')"
    by (simp add: gesture_def sd ds)
  ultimately show ?thesis by (simp add: scene_def new_shape_def)
qed

lemma draws_two_point_exact:
  assumes "drawing_mode st" and "tool st \<noteq> Move" and "tool st \<noteq> Pencil" and "tool st \<noteq> Eraser"
  shows "draws st es = Inr (st\<lparr> currentPos := last (currentPos st # samples st es) \<rparr>)"
  using assms
proof (induction es arbitrary: st)
  case Nil
  then show ?case by (simp add: samples_def List.map_filter_simps)
next
  case (Cons e es)
  show ?case
  proof (cases "pointer st e")
    case None
    with Cons.prems(1) have "draw st e = Inr st"
      by (simp add: draw_unmounted drawing_mode_def)
    with Cons.IH [OF Cons.prems] None show ?thesis by (simp add: samples_Cons)
  next
    case (Some p)
    let ?st = "st\<lparr> currentPos := snapped st p \<rparr>"
    from Cons.prems(1) have np: "\<not> isPanning st" by (simp add: drawing_mode_def)
    from Cons.prems(2) have h: "hover_update st p = Inr st" by (simp add: hover_update_def)
    from Cons.prems have "edit_step st p (snapped st p) = Inr ?st"
      by (simp add: edit_step_def drawing_mode_def Let_def)
    with draw_mounted [OF np Some] h have d: "draw st e = Inr ?st" by simp
    have v: "samples ?st es = samples st es"
      by (rule samples_same_view) (simp add: same_view_def)
    have "drawing_mode ?st" "tool ?st \<noteq> Move" "tool ?st \<noteq> Pencil" "tool ?st \<noteq> Eraser"
      using Cons.prems by (simp_all add: drawing_mode_def)
    from Cons.IH [OF this] d Some v show ?thesis by (simp add: samples_Cons)
  qed
qed

lemma applySnap_idem:
  assumes "snapToGrid st" and "gridSpacing st \<noteq> 0" and "on_grid (gridSpacing st) v"
  shows "applySnap st v = v"
proof -
  from assms(2,3) obtain k :: int where k: "v = real_of_int k * gridSpacing st"
    by (auto simp add: on_grid_iff)
  have "\<lfloor>real_of_int k + 1 / 2\<rfloor> = k" by linarith
  with assms(1,2) k show ?thesis by (simp add: applySnap_def js_round_def)
qed

lemma samples_on_grid:
  "snapToGrid st \<Longrightarrow> gridSpacing st \<noteq> 0 \<Longrightarrow> list_all (point_on_grid (gridSpacing st)) (samples st es)"
  by (simp add: samples_def list_all_iff snapped_on_grid)

lemma last_on_grid:
  "snapToGrid st \<Longrightarrow> gridSpacing st \<noteq> 0 \<Longrightarrow>
   point_on_grid (gridSpacing st) (last (snapped st p # samples st es))"
proof -
  assume a: "snapToGrid st" "gridSpacing st \<noteq> 0"
  then have "list_all (point_on_grid (gridSpacing st)) (snapped st p # samples st es)"
    by (simp add: samples_on_grid snapped_on_grid)
  moreover have "last (snapped st p # samples st es) \<in> set (snapped st p # samples st es)"
    by (rule last_in_set) simp
  ultimately show ?thesis by (simp only: list_all_iff)
qed

lemma translate_zero: "translate 0 0 p = p"
  by (simp add: translate_def)

lemma translate_translate: "translate a b (translate c d p) = translate (a + c) (b + d) p"
  by (simp add: translate_def)

lemma move_selected_zero: "move_selected sel 0 0 ss = ss"
proof -
  have "map (translate 0 0) pts = pts" for pts by (induction pts) (simp_all add: translate_zero)
  then show ?thesis by (induction ss) (simp_all add: move_selected_def)
qed

lemma move_selected_twice:
  "move_selected sel a b (move_selected sel c d ss) = move_selected sel (a + c) (b + d) ss"
  by (induction ss) (simp_all add: move_selected_def translate_translate comp_def)

lemma on_grid_uminus: "g \<noteq> 0 \<Longrightarrow> on_grid g v \<Longrightarrow> on_grid g (- v)"
  using on_grid_diff [of g 0 v] by (simp add: on_grid_zero)

lemma on_grid_abs: "g \<noteq> 0 \<Longrightarrow> on_grid g v \<Longrightarrow> on_grid g \<bar>v\<bar>"
  by (simp add: abs_if on_grid_uminus)

lemma on_grid_max: "on_grid g u \<Longrightarrow> on_grid g v \<Longrightarrow> on_grid g (max u v)"
  by (simp add: max_def)

lemma on_grid_corner:
  "g \<noteq> 0 \<Longrightarrow> on_grid g u \<Longrightarrow> on_grid g v \<Longrightarrow> on_grid g (u + (if b then v else - v))"
  by (cases b) (simp_all add: on_grid_add on_grid_diff)

lemma stopDrawing_two_point_exact:
  assumes "drawing_mode st" and "tool st \<in> set two_point_tools"
  shows "shapes (stopDrawing st rid) =
      (let dx = px (currentPos st) - px (startPos st);
           dy = py (currentPos st) - py (startPos st);
           sz = max \<bar>dx\<bar> \<bar>dy\<bar>;
           constrained = (isShiftPressed st \<and> tool st \<in> {Rect, Circle, RoundRect});
           endX = (if constrained then px (startPos st) + (if dx \<ge> 0 then sz else - sz)
                   else px (currentPos st));
           endY = (if constrained then py (startPos st) + (if dy \<ge> 0 then sz else - sz)
                   else py (currentPos st))
       in shapes st @ [new_shape rid (tool st)
                             [startPos st, \<lparr> px = applySnap st endX, py = applySnap st endY \<rparr>]
                             (color st) (brushSize st / scale st) (isFilled st) None])"
proof -
  from assms(2) have "tool st \<notin> {Pencil, Eraser, Move, Hand}"
    by (auto simp add: two_point_tools_def)
  with assms(1) show ?thesis
    unfolding stopDrawing_def drawing_mode_def Let_def by (simp add: saveHistory_def)
qed

lemma Point_eta: "\<lparr> px = px c, py = py c \<rparr> = c"
  by simp

lemma on_grid_if: "on_grid g u \<Longrightarrow> on_grid g v \<Longrightarrow> on_grid g (if b then u else v)"
  by simp

lemma stopDrawing_two_point_grid:
  assumes "drawing_mode st" and "tool st \<in> set two_point_tools"
    and "snapToGrid st" and "gridSpacing st \<noteq> 0"
    and "point_on_grid (gridSpacing st) (startPos st)"
    and "point_on_grid (gridSpacing st) (currentPos st)"
  shows "shapes (stopDrawing st rid) =
      (let dx = px (currentPos st) - px (startPos st);
           dy = py (currentPos st) - py (startPos st);
           sz = max \<bar>dx\<bar> \<bar>dy\<bar>;
           constrained = (isShiftPressed st \<and> tool st \<in> {Rect, Circle, RoundRect});
           endX = (if constrained then px (startPos st) + (if dx \<ge> 0 then sz else - sz)
                   else px (currentPos st));
           endY = (if constrained then py (startPos st) + (if dy \<ge> 0 then sz else - sz)
                   else py (currentPos st))
       in shapes st @ [new_shape rid (tool st) [startPos st, \<lparr> px = endX, py = endY \<rparr>]
                             (color st) (brushSize st / scale st) (isFilled st) None])
       \<and> on_grid (gridSpacing st)
            (if isShiftPressed st \<and> tool st \<in> {Rect, Circle, RoundRect}
             then px (startPos st)
                  + (if px (currentPos st) - px (startPos st) \<ge> 0
                     then max \<bar>px (currentPos st) - px (startPos st)\<bar>
                              \<bar>py (currentPos st) - py (startPos st)\<bar>
                     else - max \<bar>px (currentPos st) - px (startPos st)\<bar>
                                \<bar>py (currentPos st) - py (startPos st)\<bar>)
             else px (currentPos st))
       \<and> on_grid (gridSpacing st)
            (if isShiftPressed st \<and> tool st \<in> {Rect, Circle, RoundRect}
             then py (startPos st)
                  + (if py (currentPos st) - py (startPos st) \<ge> 0
                     then max \<bar>px (currentPos st) - px (startPos st)\<bar>
                              \<bar>py (currentPos st) - py (startPos st)\<bar>
                     else - max \<bar>px (currentPos st) - px (startPos st)\<bar>
                                \<bar>py (currentPos st) - py (startPos st)\<bar>)
             else py (currentPos st))"
proof -
  let ?g = "gridSpacing st"
  from assms(5,6) have ga: "on_grid ?g (px (startPos st))" "on_grid ?g (py (startPos st))"
    and gc: "on_grid ?g (px (currentPos st))" "on_grid ?g (py (currentPos st))"
    by (simp_all add: point_on_grid_def)
  have gs: "on_grid ?g (max \<bar>px (currentPos st) - px (startPos st)\<bar>
                             \<bar>py (currentPos st) - py (startPos st)\<bar>)"
    using assms(4) ga gc by (intro on_grid_max on_grid_abs on_grid_diff)
  note ex = on_grid_if [OF on_grid_corner [OF assms(4) ga(1) gs] gc(1)]
  note ey = on_grid_if [OF on_grid_corner [OF assms(4) ga(2) gs] gc(2)]
  show ?thesis
    unfolding stopDrawing_two_point_exact [OF assms(1,2)] Let_def
    by (intro conjI ex ey) (simp only: applySnap_idem [OF assms(3,4) ex] applySnap_idem [OF assms(3,4) ey])
qed

lemma gesture_two_point_exact:
  assumes "idle st" and "primary_down st down" and "pointer st down = Some p"
    and "tool st \<in> set two_point_tools" and "snapToGrid st" and "gridSpacing st \<noteq> 0"
  shows "(let a = snapped st p;
              c = last (a # samples st moves);
              sz = max \<bar>px c - px a\<bar> \<bar>py c - py a\<bar>;
              b = (if isShiftPressed st \<and> tool st \<in> {Rect, Circle, RoundRect}
                   then \<lparr> px = px a + (if 0 \<le> px c - px a then sz else - sz),
                          py = py a + (if 0 \<le> py c - py a then sz else - sz) \<rparr>
                   else c)
          in scene (gesture st down rid moves rid')
               = Some (shapes st @ [new_shape rid' (tool st) [a, b] (color st)
                                      (brushSize st / scale st) (isFilled st) None])
             \<and> point_on_grid (gridSpacing st) a \<and> point_on_grid (gridSpacing st) b)"
proof -
  note last.simps [simp del]
  let ?g = "gridSpacing st"
  let ?a = "snapped st p"
  let ?c = "last (?a # samples st moves)"
  from assms(4) have t: "tool st \<noteq> Move" "tool st \<noteq> Text" "tool st \<noteq> Pencil" "tool st \<noteq> Eraser"
    by (auto simp add: two_point_tools_def)
  let ?st1 = "st\<lparr> startPos := ?a, currentPos := ?a, isDrawing := True, selectedShapeId := None \<rparr>"
  have sd: "startDrawing st down rid = Inr ?st1"
    using startDrawing_begin_exact [OF assms(2,3) t(1,2), of rid] t(3,4)
    by (simp add: begin_drawing_def)
  have m: "drawing_mode ?st1" "tool ?st1 \<noteq> Move" "tool ?st1 \<noteq> Pencil" "tool ?st1 \<noteq> Eraser"
    using assms(1) t by (simp_all add: drawing_mode_def idle_def)
  have v: "samples ?st1 moves = samples st moves"
    by (rule samples_same_view) (simp add: same_view_def)
  let ?st2 = "?st1\<lparr> currentPos := ?c \<rparr>"
  have ds: "draws ?st1 moves = Inr ?st2"
    using draws_two_point_exact [OF m, of moves] v by simp
  have m2: "drawing_mode ?st2" "tool ?st2 \<in> set two_point_tools"
    "snapToGrid ?st2" "gridSpacing ?st2 \<noteq> 0"
    "point_on_grid (gridSpacing ?st2) (startPos ?st2)"
    "point_on_grid (gridSpacing ?st2) (currentPos ?st2)"
    using m(1) assms(4,5,6) snapped_on_grid [OF assms(5,6), of p]
      last_on_grid [OF assms(5,6), of p moves]
    by (simp_all add: drawing_mode_def)
  have g: "gesture st down rid moves rid' = Inr (stopDrawing ?st2 rid')"
    by (simp add: gesture_def sd ds)
  have sel: "startPos ?st2 = ?a" "currentPos ?st2 = ?c" "shapes ?st2 = shapes st"
    "tool ?st2 = tool st" "color ?st2 = color st" "brushSize ?st2 = brushSize st"
    "scale ?st2 = scale st" "isFilled ?st2 = isFilled st"
    "isShiftPressed ?st2 = isShiftPressed st" "gridSpacing ?st2 = gridSpacing st"
    by simp_all
  note r = stopDrawing_two_point_grid [OF m2, of rid', unfolded Let_def sel]
  have ga: "point_on_grid ?g ?a" using assms(5,6) by (rule snapped_on_grid)
  show ?thesis
  proof (cases "isShiftPressed st \<and> tool st \<in> {Rect, Circle, RoundRect}")
    case True
    note r' = r [unfolded if_P [OF True]]
    from r' ga show ?thesis
      unfolding Let_def if_P [OF True] by (simp add: g scene_def point_on_grid_def)
  next
    case False
    note r' = r [unfolded if_not_P [OF False] Point_eta]
    from r' ga show ?thesis
      unfolding Let_def if_not_P [OF False] Point_eta by (simp add: g scene_def point_on_grid_def)
  qed
qed

lemma draws_drag_exact:
  assumes "isDragging st" and "\<not> isPanning st" and "tool st = Move"
    and "truthy_id (selectedShapeId st)"
  shows "draws st es =
           Inr (st\<lparr> shapes := move_selected (selectedShapeId st)
                                (px (last (currentPos st # samples st es)) - px (currentPos st))
                                (py (last (currentPos st # samples st es)) - py (currentPos st))
                                (shapes st),
                     currentPos := last (currentPos st # samples st es) \<rparr>)"
  using assms
proof (induction es arbitrary: st)
  case Nil
  then show ?case by (simp add: samples_def List.map_filter_simps move_selected_zero)
next
  case (Cons e es)
  show ?case
  proof (cases "pointer st e")
    case None
    with Cons.prems(2) have "draw st e = Inr st" by (simp add: draw_unmounted)
    with Cons.IH [OF Cons.prems] None show ?thesis by (simp add: samples_Cons)
  next
    case (Some p)
    let ?sp = "snapped st p"
    let ?st = "st\<lparr> shapes := move_selected (selectedShapeId st) (px ?sp - px (currentPos st))
                                (py ?sp - py (currentPos st)) (shapes st),
                    currentPos := ?sp \<rparr>"
    from Cons.prems(1) have h: "hover_update st p = Inr st" by (simp add: hover_update_def)
    from Cons.prems have "edit_step st p ?sp = Inr ?st"
      by (simp add: edit_step_def Let_def)
    with draw_mounted [OF Cons.prems(2) Some] h have d: "draw st e = Inr ?st" by simp
    have v: "samples ?st es = samples st es"
      by (rule samples_same_view) (simp add: same_view_def)
    have "isDragging ?st" "\<not> isPanning ?st" "tool ?st = Move" "truthy_id (selectedShapeId ?st)"
      using Cons.prems by simp_all
    from Cons.IH [OF this] d Some v show ?thesis
      by (simp add: samples_Cons move_selected_twice)
  qed
qed

lemma startDrawing_drag_exact:
  assumes "primary_down st e" and "pointer st e = Some p" and "tool st = Move"
    and "grab_handle st p = None"
    and "find_hit (scale st) p (rev (shapes st)) = Inr (Some hit)"
    and "\<not> truthy_flag (isLocked hit)"
  shows "startDrawing st e rid =
           Inr (st\<lparr> startPos := snapped st p, currentPos := snapped st p,
                     selectedShapeId := Some (shape_id hit), isDragging := True \<rparr>)"
  using assms
  by (auto simp add: startDrawing_def select_at_def primary_down_def pointer_def Let_def
        split: option.splits)

lemma gesture_drag_exact:
  assumes "idle st" and "primary_down st down" and "pointer st down = Some p"
    and "tool st = Move" and "grab_handle st p = None"
    and "find_hit (scale st) p (rev (shapes st)) = Inr (Some hit)"
    and "\<not> truthy_flag (isLocked hit)" and "shape_id hit \<noteq> []"
  shows "scene (gesture st down rid moves rid')
           = Some (move_selected (Some (shape_id hit))
                     (px (last (snapped st p # samples st moves)) - px (snapped st p))
                     (py (last (snapped st p # samples st moves)) - py (snapped st p))
                     (shapes st))"
proof -
  note last.simps [simp del]
  let ?a = "snapped st p"
  let ?st1 = "st\<lparr> startPos := ?a, currentPos := ?a,
                  selectedShapeId := Some (shape_id hit), isDragging := True \<rparr>"
  have sd: "startDrawing st down rid = Inr ?st1"
    using assms(2-7) by (rule startDrawing_drag_exact)
  have m: "isDragging ?st1" "\<not> isPanning ?st1" "tool ?st1 = Move"
    "truthy_id (selectedShapeId ?st1)"
    using assms(1,4,8) by (simp_all add: idle_def)
  have v: "samples ?st1 moves = samples st moves"
    by (rule samples_same_view) (simp add: same_view_def)
  have sel: "currentPos ?st1 = ?a" "selectedShapeId ?st1 = Some (shape_id hit)"
    "shapes ?st1 = shapes st"
    by simp_all
  note ds = draws_drag_exact [OF m, of moves, unfolded v sel]
  have "gesture st down rid moves rid' = Inr (stopDrawing
          (?st1\<lparr> shapes := move_selected (Some (shape_id hit))
                     (px (last (?a # samples st moves)) - px ?a)
                     (py (last (?a # samples st moves)) - py ?a) (shapes st),
                 currentPos := last (?a # samples st moves) \<rparr>) rid')"
    by (simp add: gesture_def sd ds)
  then show ?thesis
    using assms(1) by (simp add: scene_def stopDrawing_def saveHistory_def idle_def)
qed

lemma drag_on_grid:
  assumes "snapToGrid st" and "gridSpacing st \<noteq> 0"
  shows "on_grid (gridSpacing st) (px (last (snapped st p # samples st es)) - px (snapped st p))
       \<and> on_grid (gridSpacing st) (py (last (snapped st p # samples st es)) - py (snapped st p))"
  using last_on_grid [OF assms, of p es] snapped_on_grid [OF assms, of p] assms(2)
  by (simp add: point_on_grid_def on_grid_diff del: last.simps)

lemma handleTextSubmit_shapes:
  "shapes (handleTextSubmit st rid) =
     (if trim_nonempty (tvalue (textInput st))
      then shapes st @ [new_shape rid Text
                          [snapped st (toWorldCoords st (tx (textInput st)) (ty (textInput st)))]
                          (color st) (brushSize st / scale st) False
                          (Some (tvalue (textInput st)))]
      else shapes st)"
  by (simp add: handleTextSubmit_def saveHistory_def Let_def)

lemma samples_explicit:
  "samples st es = map (\<lambda>q. \<lparr> px = applySnap st (px q), py = applySnap st (py q) \<rparr>)
                     (List.map_filter (pointer st) es)"
  by (simp add: samples_def snapped_def)

lemma applySnap_explicit:
  "snapToGrid st \<Longrightarrow>
   applySnap st v = real_of_int \<lfloor>v / gridSpacing st + 1 / 2\<rfloor> * gridSpacing st"
  by (simp add: applySnap_def js_round_def)

text \<open>
  Claim C8 as stated: after a drag with snap enabled every coordinate of the dragged shape
  is a multiple of the grid spacing. A rectangle (5,5)-(105,55), drawn without snap, is
  dragged with snap enabled and grid spacing 40 from (50, 30) to (90, 30): the pointer
  positions are rounded to (40, 40) and (80, 40), the shape moves by their difference and
  ends at (45,5)-(145,55), off the grid.
\<close>

theorem drag_keeps_off_grid_counterexample:
  "snapToGrid snap_scene \<and> gridSpacing snap_scene = 40
   \<and> map points (shapes snap_scene) = [[\<lparr>px = 5, py = 5\<rparr>, \<lparr>px = 105, py = 55\<rparr>]]
   \<and> scene_points (gesture snap_scene (mouse_at 50 30) [] [mouse_at 90 30] [])
       = Some [[\<lparr>px = 45, py = 5\<rparr>, \<lparr>px = 145, py = 55\<rparr>]]
   \<and> \<not> on_grid 40 45"
  by (simp add: scene_points_def snap_scene_def off_grid_rect_def initial_def new_shape_def gesture_def
        mouse_at_def startDrawing_def grab_handle_def select_at_def checkHit_def rot_angle_def
        draw_def hover_update_def edit_step_def move_selected_def translate_def
        stopDrawing_def saveHistory_def slice_last_def MAX_HISTORY_def toWorldCoords_def
        snapped_def applySnap_def js_round_def on_grid_def Let_def)

text \<open>
  Claim C8, amended. Let grid snap be enabled, with a positive grid spacing \<open>g\<close> and a
  positive scale. \<open>applySnap v\<close> is the multiple \<open>\<lfloor>v / g + 1 / 2\<rfloor> * g\<close> of the grid spacing,
  at most \<open>g / 2\<close> away from \<open>v\<close>. Write \<open>r q\<close> for the position \<open>q\<close> with \<open>applySnap\<close>
  applied to each coordinate. A gesture starts while no interaction is in progress, with a
  mouse-down at the pointer position \<open>p\<close> that does not start a pan, and goes on with
  mouse-moves.
  \<^item> With the pencil or the eraser, the scene gains one stroke whose points are \<open>r p\<close>
    followed by \<open>r\<close> of the position of every mouse-move, all of them on the grid.
  \<^item> With a two-point tool, the scene gains one shape with the points \<open>r p\<close> and
    \<open>b\<close>, both on the grid, where \<open>b\<close> is \<open>r\<close> of the last mouse-move (\<open>r p\<close> without
    a mouse-move), or, with Shift held and the rectangle, circle or rounded rectangle, the
    corner of the square drawn from \<open>r p\<close> towards that position.
  \<^item> With the selection tool, the pointer on no handle of the selected shape and the
    topmost shape under the pointer unlocked, the shapes with the identifier of that shape
    are translated by the difference between \<open>r\<close> of the last mouse-move and \<open>r p\<close>, an
    exact multiple of the grid spacing in each coordinate, whatever their coordinates were
    before; every other shape stays as it is.

  A submitted text whose value is not only white space is placed at \<open>r\<close> of the world
  position of the input box, on the grid; a value of white space only creates no shape.
  (Resizing is left out: the resize gesture starts from the pointer position as it is, not
  rounded.)
\<close>

theorem snap_to_grid:
  assumes "snapToGrid st" and "0 < gridSpacing st" and "0 < scale st"
  shows "applySnap st v = real_of_int \<lfloor>v / gridSpacing st + 1 / 2\<rfloor> * gridSpacing st
       \<and> on_grid (gridSpacing st) (applySnap st v)
       \<and> \<bar>applySnap st v - v\<bar> \<le> gridSpacing st / 2
       \<and> (let r = (\<lambda>q. \<lparr> px = applySnap st (px q), py = applySnap st (py q) \<rparr>);
               a = r p;
               rest = map r (List.map_filter (pointer st) moves);
               c = last (a # rest)
           in idle st \<and> primary_down st down \<and> pointer st down = Some p \<longrightarrow>
                ((tool st = Pencil \<or> tool st = Eraser) \<longrightarrow>
                   scene (gesture st down rid moves rid')
                     = Some (shapes st @ [new_shape rid (tool st) (a # rest) (color st)
                                            (brushSize st / scale st) False None])
                   \<and> list_all (point_on_grid (gridSpacing st)) (a # rest))
              \<and> (tool st \<in> set two_point_tools \<longrightarrow>
                   (let sz = max \<bar>px c - px a\<bar> \<bar>py c - py a\<bar>;
                        b = (if isShiftPressed st \<and> tool st \<in> {Rect, Circle, RoundRect}
                             then \<lparr> px = px a + (if 0 \<le> px c - px a then sz else - sz),
                                    py = py a + (if 0 \<le> py c - py a then sz else - sz) \<rparr>
                             else c)
                    in scene (gesture st down rid moves rid')
                         = Some (shapes st @ [new_shape rid' (tool st) [a, b] (color st)
                                                (brushSize st / scale st) (isFilled st) None])
                       \<and> point_on_grid (gridSpacing st) a \<and> point_on_grid (gridSpacing st) b))
              \<and> (tool st = Move \<and> grab_handle st p = None
                  \<and> find_hit (scale st) p (rev (shapes st)) = Inr (Some hit)
                  \<and> \<not> truthy_flag (isLocked hit) \<and> shape_id hit \<noteq> [] \<longrightarrow>
                   scene (gesture st down rid moves rid')
                     = Some (map (\<lambda>s. if shape_id s = shape_id hit
                                       then s\<lparr> points :=
                                              map (\<lambda>q. \<lparr> px = px q + (px c - px a),
                                                          py = py q + (py c - py a) \<rparr>)
                                                  (points s) \<rparr>
                                       else s) (shapes st))
                   \<and> on_grid (gridSpacing st) (px c - px a)
                   \<and> on_grid (gridSpacing st) (py c - py a)))
       \<and> (trim_nonempty (tvalue (textInput st)) \<longrightarrow>
            shapes (handleTextSubmit st rid)
              = shapes st @ [new_shape rid Text
                               [\<lparr> px = applySnap st (px (toWorldCoords st (tx (textInput st))
                                                                       (ty (textInput st)))),
                                   py = applySnap st (py (toWorldCoords st (tx (textInput st))
                                                                       (ty (textInput st)))) \<rparr>]
                               (color st) (brushSize st / scale st) False
                               (Some (tvalue (textInput st)))]
            \<and> on_grid (gridSpacing st)
                 (applySnap st (px (toWorldCoords st (tx (textInput st)) (ty (textInput st)))))
            \<and> on_grid (gridSpacing st)
                 (applySnap st (py (toWorldCoords st (tx (textInput st)) (ty (textInput st))))))
       \<and> (\<not> trim_nonempty (tvalue (textInput st)) \<longrightarrow>
            shapes (handleTextSubmit st rid) = shapes st)"
proof -
  note last.simps [simp del]
  from assms(2) have g: "gridSpacing st \<noteq> 0" by simp
  let ?r = "\<lambda>q. \<lparr> px = applySnap st (px q), py = applySnap st (py q) \<rparr>"
  let ?a = "?r p"
  let ?rest = "map ?r (List.map_filter (pointer st) moves)"
  have sa: "snapped st p = ?a" by (simp add: snapped_def)
  have sr: "samples st moves = ?rest" by (rule samples_explicit)
  have c1: "applySnap st v = real_of_int \<lfloor>v / gridSpacing st + 1 / 2\<rfloor> * gridSpacing st"
    using assms(1) by (rule applySnap_explicit)
  have c2: "on_grid (gridSpacing st) (applySnap st v)" for v
    using assms(1) g by (rule applySnap_on_grid)
  have c3: "\<bar>applySnap st v - v\<bar> \<le> gridSpacing st / 2"
    using assms(1,2) by (rule applySnap_nearest)
  have f1: "scene (gesture st down rid moves rid')
              = Some (shapes st @ [new_shape rid (tool st) (?a # ?rest) (color st)
                                     (brushSize st / scale st) False None])"
    if "idle st" "primary_down st down" "pointer st down = Some p"
      "tool st = Pencil \<or> tool st = Eraser"
    using gesture_freehand_exact [OF that, of rid moves rid'] unfolding sa sr .
  have f2: "list_all (point_on_grid (gridSpacing st)) (?a # ?rest)"
    using samples_on_grid [OF assms(1) g, of moves] snapped_on_grid [OF assms(1) g, of p]
    unfolding sa sr by simp
  note t1 = gesture_two_point_exact [OF _ _ _ _ assms(1) g, of down p moves rid rid',
              unfolded sa sr Let_def]
  have d1: "scene (gesture st down rid moves rid')
              = Some (map (\<lambda>s. if shape_id s = shape_id hit
                                then s\<lparr> points :=
                                       map (\<lambda>q. \<lparr> px = px q + (px (last (?a # ?rest)) - px ?a),
                                                   py = py q + (py (last (?a # ?rest)) - py ?a) \<rparr>)
                                           (points s) \<rparr>
                                else s) (shapes st))"
    if "idle st" "primary_down st down" "pointer st down = Some p" "tool st = Move"
      "grab_handle st p = None" "find_hit (scale st) p (rev (shapes st)) = Inr (Some hit)"
      "\<not> truthy_flag (isLocked hit)" "shape_id hit \<noteq> []"
    using gesture_drag_exact [OF that, of rid moves rid'] unfolding sa sr
    by (simp add: move_selected_def translate_def)
  note d2 = drag_on_grid [OF assms(1) g, of p moves, unfolded sa sr]
  have x1: "shapes (handleTextSubmit st rid)
              = shapes st @ [new_shape rid Text
                               [\<lparr> px = applySnap st (px (toWorldCoords st (tx (textInput st))
                                                                       (ty (textInput st)))),
                                   py = applySnap st (py (toWorldCoords st (tx (textInput st))
                                                                       (ty (textInput st)))) \<rparr>]
                               (color st) (brushSize st / scale st) False
                               (Some (tvalue (textInput st)))]"
    if "trim_nonempty (tvalue (textInput st))"
    using that by (simp add: handleTextSubmit_shapes snapped_def)
  have x2: "shapes (handleTextSubmit st rid) = shapes st"
    if "\<not> trim_nonempty (tvalue (textInput st))"
    using that by (simp add: handleTextSubmit_shapes)
  show ?thesis
    unfolding Let_def
    by (intro conjI impI c1 c2 c3 f2; (elim conjE)?; (rule f1 d1 x1 x2 | simp only: t1 d2)?)
       (assumption | simp only: t1 d2)+
qed

theorem snap_to_grid_witness:
  "snapToGrid snap_pencil \<and> 0 < gridSpacing snap_pencil \<and> 0 < scale snap_pencil
   \<and> idle snap_pencil \<and> primary_down snap_pencil (mouse_at 50 30)
   \<and> pointer snap_pencil (mouse_at 50 30) = Some \<lparr>px = 50, py = 30\<rparr>
   \<and> tool snap_pencil = Pencil
   \<and> applySnap snap_pencil 50 = 40
   \<and> scene (gesture snap_pencil (mouse_at 50 30) ''a'' [mouse_at 90 30, mouse_at 130 70] ''b'')
       = Some [new_shape ''a'' Pencil
                 [\<lparr>px = 40, py = 40\<rparr>, \<lparr>px = 80, py = 40\<rparr>, \<lparr>px = 120, py = 80\<rparr>]
                 ''#6366f1'' 5 False None]
   \<and> snapToGrid snap_rect \<and> 0 < gridSpacing snap_rect \<and> 0 < scale snap_rect
   \<and> idle snap_rect \<and> primary_down snap_rect (mouse_at 50 30)
   \<and> pointer snap_rect (mouse_at 50 30) = Some \<lparr>px = 50, py = 30\<rparr>
   \<and> tool snap_rect \<in> set two_point_tools
   \<and> scene (gesture snap_rect (mouse_at 50 30) ''a'' [mouse_at 90 30, mouse_at 130 70] ''b'')
       = Some [new_shape ''b'' Rect [\<lparr>px = 40, py = 40\<rparr>, \<lparr>px = 120, py = 80\<rparr>]
                 ''#6366f1'' 5 False None]
   \<and> snapToGrid snap_square \<and> 0 < gridSpacing snap_square \<and> 0 < scale snap_square
   \<and> idle snap_square \<and> primary_down snap_square (mouse_at 50 30)
   \<and> pointer snap_square (mouse_at 50 30) = Some \<lparr>px = 50, py = 30\<rparr>
   \<and> tool snap_square \<in> set two_point_tools
   \<and> scene (gesture snap_square (mouse_at 50 30) ''a'' [mouse_at 90 30, mouse_at 130 70] ''b'')
       = Some [new_shape ''b'' Rect [\<lparr>px = 40, py = 40\<rparr>, \<lparr>px = 120, py = 120\<rparr>]
                 ''#6366f1'' 5 False None]
   \<and> snapToGrid snap_scene \<and> 0 < gridSpacing snap_scene \<and> 0 < scale snap_scene
   \<and> idle snap_scene \<and> primary_down snap_scene (mouse_at 50 30)
   \<and> pointer snap_scene (mouse_at 50 30) = Some \<lparr>px = 50, py = 30\<rparr>
   \<and> tool snap_scene = Move \<and> grab_handle snap_scene \<lparr>px = 50, py = 30\<rparr> = None
   \<and> find_hit (scale snap_scene) \<lparr>px = 50, py = 30\<rparr> (rev (shapes snap_scene))
       = Inr (Some off_grid_rect)
   \<and> \<not> truthy_flag (isLocked off_grid_rect) \<and> shape_id off_grid_rect \<noteq> []
   \<and> scene (gesture snap_scene (mouse_at 50 30) ''a'' [mouse_at 90 30, mouse_at 130 70] ''b'')
       = Some [off_grid_rect\<lparr> points := [\<lparr>px = 85, py = 45\<rparr>, \<lparr>px = 185, py = 95\<rparr>] \<rparr>]
   \<and> snapToGrid snap_text \<and> 0 < gridSpacing snap_text \<and> 0 < scale snap_text
   \<and> trim_nonempty (tvalue (textInput snap_text))
   \<and> shapes (handleTextSubmit snap_text ''a'')
       = [new_shape ''a'' Text [\<lparr>px = 40, py = 40\<rparr>] ''#6366f1'' 5 False (Some [0x68, 0x69])]
   \<and> snapToGrid snap_blank \<and> 0 < gridSpacing snap_blank \<and> 0 < scale snap_blank
   \<and> \<not> trim_nonempty (tvalue (textInput snap_blank))
   \<and> shapes (handleTextSubmit snap_blank ''a'') = []"
proof -
  note ev = pointer_def mouse_at_def toWorldCoords_def applySnap_def js_round_def
    List.map_filter_simps initial_def
  have p: "snapToGrid snap_pencil" "0 < gridSpacing snap_pencil" "0 < scale snap_pencil"
    "idle snap_pencil \<and> primary_down snap_pencil (mouse_at 50 30)
     \<and> pointer snap_pencil (mouse_at 50 30) = Some \<lparr>px = 50, py = 30\<rparr>"
    "tool snap_pencil = Pencil \<or> tool snap_pencil = Eraser"
    "tool snap_pencil = Pencil" "applySnap snap_pencil 50 = 40"
    by (simp_all add: snap_pencil_def idle_def primary_down_def ev)
  have r: "snapToGrid snap_rect" "0 < gridSpacing snap_rect" "0 < scale snap_rect"
    "idle snap_rect \<and> primary_down snap_rect (mouse_at 50 30)
     \<and> pointer snap_rect (mouse_at 50 30) = Some \<lparr>px = 50, py = 30\<rparr>"
    "tool snap_rect \<in> set two_point_tools"
    by (simp_all add: snap_rect_def idle_def primary_down_def two_point_tools_def ev)
  have q: "snapToGrid snap_square" "0 < gridSpacing snap_square" "0 < scale snap_square"
    "idle snap_square \<and> primary_down snap_square (mouse_at 50 30)
     \<and> pointer snap_square (mouse_at 50 30) = Some \<lparr>px = 50, py = 30\<rparr>"
    "tool snap_square \<in> set two_point_tools"
    by (simp_all add: snap_square_def idle_def primary_down_def two_point_tools_def ev)
  have d: "snapToGrid snap_scene" "0 < gridSpacing snap_scene" "0 < scale snap_scene"
    "idle snap_scene \<and> primary_down snap_scene (mouse_at 50 30)
     \<and> pointer snap_scene (mouse_at 50 30) = Some \<lparr>px = 50, py = 30\<rparr>"
    "tool snap_scene = Move \<and> grab_handle snap_scene \<lparr>px = 50, py = 30\<rparr> = None
     \<and> find_hit (scale snap_scene) \<lparr>px = 50, py = 30\<rparr> (rev (shapes snap_scene))
         = Inr (Some off_grid_rect)
     \<and> \<not> truthy_flag (isLocked off_grid_rect) \<and> shape_id off_grid_rect \<noteq> []"
    by (simp_all add: snap_scene_def off_grid_rect_def new_shape_def idle_def primary_down_def
          grab_handle_def checkHit_def rot_angle_def Let_def ev)
  have t: "snapToGrid snap_text" "0 < gridSpacing snap_text" "0 < scale snap_text"
    "trim_nonempty (tvalue (textInput snap_text))"
    by (simp_all add: snap_text_def initial_def trim_nonempty_def js_space_def)
  note pencil = snap_to_grid [OF p(1-3), where down = "mouse_at 50 30"
      and p = "\<lparr>px = 50, py = 30\<rparr>" and moves = "[mouse_at 90 30, mouse_at 130 70]"
      and rid = "''a''" and rid' = "''b''", unfolded Let_def,
      THEN conjunct2, THEN conjunct2, THEN conjunct2, THEN conjunct1, THEN mp, OF p(4),
      THEN conjunct1, THEN mp, OF p(5), THEN conjunct1]
  note rect = snap_to_grid [OF r(1-3), where down = "mouse_at 50 30"
      and p = "\<lparr>px = 50, py = 30\<rparr>" and moves = "[mouse_at 90 30, mouse_at 130 70]"
      and rid = "''a''" and rid' = "''b''", unfolded Let_def,
      THEN conjunct2, THEN conjunct2, THEN conjunct2, THEN conjunct1, THEN mp, OF r(4),
      THEN conjunct2, THEN conjunct1, THEN mp, OF r(5), THEN conjunct1]
  note square = snap_to_grid [OF q(1-3), where down = "mouse_at 50 30"
      and p = "\<lparr>px = 50, py = 30\<rparr>" and moves = "[mouse_at 90 30, mouse_at 130 70]"
      and rid = "''a''" and rid' = "''b''", unfolded Let_def,
      THEN conjunct2, THEN conjunct2, THEN conjunct2, THEN conjunct1, THEN mp, OF q(4),
      THEN conjunct2, THEN conjunct1, THEN mp, OF q(5), THEN conjunct1]
  note drag = snap_to_grid [OF d(1-3), where down = "mouse_at 50 30"
      and p = "\<lparr>px = 50, py = 30\<rparr>" and moves = "[mouse_at 90 30, mouse_at 130 70]"
      and rid = "''a''" and rid' = "''b''" and hit = off_grid_rect, unfolded Let_def,
      THEN conjunct2, THEN conjunct2, THEN conjunct2, THEN conjunct1, THEN mp, OF d(4),
      THEN conjunct2, THEN conjunct2, THEN mp, OF d(5), THEN conjunct1]
  have n: "snapToGrid snap_blank" "0 < gridSpacing snap_blank" "0 < scale snap_blank"
    "\<not> trim_nonempty (tvalue (textInput snap_blank))"
    by (simp_all add: snap_blank_def initial_def trim_nonempty_def js_space_def)
  note blank = snap_to_grid [OF n(1-3), where rid = "''a''", unfolded Let_def,
      THEN conjunct2, THEN conjunct2, THEN conjunct2, THEN conjunct2, THEN conjunct2,
      THEN mp, OF n(4)]
  have w6: "shapes (handleTextSubmit snap_blank ''a'') = []"
    unfolding blank by (simp add: snap_blank_def initial_def)
  note text_shape = snap_to_grid [OF t(1-3), where rid = "''a''", unfolded Let_def,
      THEN conjunct2, THEN conjunct2, THEN conjunct2, THEN conjunct2, THEN conjunct1,
      THEN mp, OF t(4), THEN conjunct1]
  have w1: "scene (gesture snap_pencil (mouse_at 50 30) ''a'' [mouse_at 90 30, mouse_at 130 70] ''b'')
       = Some [new_shape ''a'' Pencil
                 [\<lparr>px = 40, py = 40\<rparr>, \<lparr>px = 80, py = 40\<rparr>, \<lparr>px = 120, py = 80\<rparr>]
                 ''#6366f1'' 5 False None]"
    unfolding pencil by (simp add: snap_pencil_def ev)
  have w2: "scene (gesture snap_rect (mouse_at 50 30) ''a'' [mouse_at 90 30, mouse_at 130 70] ''b'')
       = Some [new_shape ''b'' Rect [\<lparr>px = 40, py = 40\<rparr>, \<lparr>px = 120, py = 80\<rparr>]
                 ''#6366f1'' 5 False None]"
    unfolding rect by (simp add: snap_rect_def ev)
  have w3: "scene (gesture snap_square (mouse_at 50 30) ''a'' [mouse_at 90 30, mouse_at 130 70] ''b'')
       = Some [new_shape ''b'' Rect [\<lparr>px = 40, py = 40\<rparr>, \<lparr>px = 120, py = 120\<rparr>]
                 ''#6366f1'' 5 False None]"
    unfolding square by (simp add: snap_square_def ev)
  have w4: "scene (gesture snap_scene (mouse_at 50 30) ''a'' [mouse_at 90 30, mouse_at 130 70] ''b'')
       = Some [off_grid_rect\<lparr> points := [\<lparr>px = 85, py = 45\<rparr>, \<lparr>px = 185, py = 95\<rparr>] \<rparr>]"
    unfolding drag by (simp add: snap_scene_def off_grid_rect_def new_shape_def ev)
  have w5: "shapes (handleTextSubmit snap_text ''a'')
       = [new_shape ''a'' Text [\<lparr>px = 40, py = 40\<rparr>] ''#6366f1'' 5 False (Some [0x68, 0x69])]"
    unfolding text_shape by (simp add: snap_text_def ev)
  from p(1-4,6,7) r q d t n w1 w2 w3 w4 w5 w6 show ?thesis by simp
qed

text \<open>
  Resizing with snap enabled, evaluated on the code. When a resize handle is grabbed,
  \<open>startDrawing\<close> stores the pointer position as it is in \<open>currentPos\<close>, and the first
  mouse-move adds the difference between the rounded position and that one. The rectangle
  (0,0)-(80,40) is on the grid of spacing 40; its south-east handle is grabbed at (82, 41)
  and moved to (100, 50), which is rounded to (120, 40): the corner ends at (118, 39).
\<close>

lemma resize_with_snap_example:
  "scene_points (Inr snap_resize_scene) = Some [[\<lparr>px = 0, py = 0\<rparr>, \<lparr>px = 80, py = 40\<rparr>]]
   \<and> grab_handle snap_resize_scene \<lparr>px = 82, py = 41\<rparr>
       = Some (snap_resize_scene\<lparr> isResizing := True, activeResizeHandle := Some SE,
                                  startPos := \<lparr>px = 82, py = 41\<rparr>,
                                  currentPos := \<lparr>px = 82, py = 41\<rparr> \<rparr>)
   \<and> scene_points (gesture snap_resize_scene (mouse_at 82 41) [] [mouse_at 100 50] [])
       = Some [[\<lparr>px = 0, py = 0\<rparr>, \<lparr>px = 118, py = 39\<rparr>]]"
proof -
  have g: "grab_handle snap_resize_scene \<lparr>px = 82, py = 41\<rparr>
       = Some (snap_resize_scene\<lparr> isResizing := True, activeResizeHandle := Some SE,
                                  startPos := \<lparr>px = 82, py = 41\<rparr>,
                                  currentPos := \<lparr>px = 82, py = 41\<rparr> \<rparr>)"
    by (simp add: grab_handle_def snap_resize_scene_def grid_rect_def new_shape_def initial_def
          checkRotationHandleHit_def checkResizeHandleHit_def baseHandles_def rot_angle_def
          near_iff Let_def)
  have w: "toWorldCoords snap_resize_scene 82 41 = \<lparr>px = 82, py = 41\<rparr>"
    and f: "\<not> isSpacePressed snap_resize_scene" "tool snap_resize_scene = Move"
    by (simp_all add: toWorldCoords_def snap_resize_scene_def initial_def)
  have s: "startDrawing snap_resize_scene (mouse_at 82 41) []
       = Inr (snap_resize_scene\<lparr> isResizing := True, activeResizeHandle := Some SE,
                                  startPos := \<lparr>px = 82, py = 41\<rparr>,
                                  currentPos := \<lparr>px = 82, py = 41\<rparr> \<rparr>)"
    by (simp add: startDrawing_def Let_def mouse_at_def w f g)
  show ?thesis
    by (simp add: g gesture_def s)
       (simp add: scene_points_def snap_resize_scene_def grid_rect_def new_shape_def initial_def
          mouse_at_def draw_def hover_update_def edit_step_def resize_selected_def
          resize_points_def add_x_def add_y_def stopDrawing_def saveHistory_def
          toWorldCoords_def snapped_def applySnap_def js_round_def Let_def)
qed

end
